theory Spec2Isabelle
  imports Main "HOL-Library.Sublist" "HOL-Library.Char_ord" "HOL-Library.List_Lexorder"
begin

section \<open>Strings and bytes\<close>

text \<open>
  \<^verbatim>\<open>server.py\<close> is a subclass of the standard library's
  \<^verbatim>\<open>http.server.SimpleHTTPRequestHandler\<close> and a start-up routine. The class overrides the
  table \<^verbatim>\<open>extensions_map\<close> and the method \<^verbatim>\<open>end_headers\<close> and adds \<^verbatim>\<open>do_OPTIONS\<close>;
  everything else a request runs through is inherited. The inherited methods are
  embedded here from CPython 3.12 (\<^verbatim>\<open>Lib/http/server.py\<close>, \<^verbatim>\<open>Lib/socketserver.py\<close>,
  \<^verbatim>\<open>Lib/posixpath.py\<close> and \<^verbatim>\<open>Lib/genericpath.py\<close>), under their own names; every
  definition says whether it comes from \<^verbatim>\<open>server.py\<close> or from the library, and quotes
  the library's code where it is short.

  The host is a POSIX system: \<^verbatim>\<open>os.path\<close> is \<^verbatim>\<open>posixpath\<close>. Not part of the model:
  the library's parser of request lines and headers (a request enters the model as the
  parser leaves it), the log lines written to the standard error stream, and failures
  of the socket. Of the exceptions of the file system calls, \<^verbatim>\<open>OSError\<close> is modelled,
  which is the one the handler catches.

  A Python \<^verbatim>\<open>str\<close> and a Python \<^verbatim>\<open>bytes\<close> are both a \<^typ>\<open>string\<close> here. The request line
  is decoded as ISO-8859-1, so a character of a request path is one byte.
\<close>

type_synonym bytes = string

definition CRLF :: string where
  "CRLF = [CHR 0x0D, CHR 0x0A]"

text \<open>\<^verbatim>\<open>str(n)\<close> for a non-negative integer: its decimal digits.\<close>

definition digit_char :: "nat \<Rightarrow> char" where
  "digit_char d = ''0123456789'' ! d"

function str_nat :: "nat \<Rightarrow> string" where
  "str_nat n = (if n < 10 then [digit_char n] else str_nat (n div 10) @ [digit_char (n mod 10)])"
  by pat_completeness auto
termination
  by (relation "measure id") auto

declare str_nat.simps [simp del]

text \<open>
  \<^verbatim>\<open>str.lower()\<close> on the ASCII letters. Python also lower-cases letters beyond ASCII; the
  only one whose lower case is an ASCII letter alone is the Kelvin sign (to \<^verbatim>\<open>k\<close>), and no
  key of the extension table contains a \<^verbatim>\<open>k\<close>, so membership of a lower-cased extension in
  the table is the same in the model and in Python.
\<close>

definition lower_char :: "char \<Rightarrow> char" where
  "lower_char c =
     (case map_of (zip ''ABCDEFGHIJKLMNOPQRSTUVWXYZ'' ''abcdefghijklmnopqrstuvwxyz'') c of
        Some l \<Rightarrow> l
      | None \<Rightarrow> c)"

definition lower :: "string \<Rightarrow> string" where
  "lower s = map lower_char s"

text \<open>\<^verbatim>\<open>s.startswith(t)\<close> and \<^verbatim>\<open>s.endswith(t)\<close>.\<close>

definition startswith :: "string \<Rightarrow> string \<Rightarrow> bool" where
  "startswith s t = (take (length t) s = t)"

definition endswith :: "string \<Rightarrow> string \<Rightarrow> bool" where
  "endswith s t = (length t \<le> length s \<and> drop (length s - length t) s = t)"

text \<open>\<^verbatim>\<open>s.rfind(c)\<close>: the highest index of the character, or \<open>-1\<close> when it does not occur.\<close>

definition rfind :: "string \<Rightarrow> char \<Rightarrow> int" where
  "rfind s c =
     (if c \<in> set s then int (length s) - 1 - int (length (takeWhile (\<lambda>x. x \<noteq> c) (rev s))) else - 1)"

text \<open>
  \<^verbatim>\<open>s.split(c)\<close> with a separator: \<^verbatim>\<open>'a//b'.split('/')\<close> is \<^verbatim>\<open>['a', '', 'b']\<close> and
  \<^verbatim>\<open>''.split('/')\<close> is \<^verbatim>\<open>['']\<close>.
\<close>

fun split :: "char \<Rightarrow> string \<Rightarrow> string list" where
  "split c [] = [[]]"
| "split c (x # xs) =
     (if x = c then [] # split c xs
      else (case split c xs of [] \<Rightarrow> [[x]] | w # ws \<Rightarrow> (x # w) # ws))"

text \<open>\<^verbatim>\<open>c.join(ws)\<close>.\<close>

fun join :: "char \<Rightarrow> string list \<Rightarrow> string" where
  "join c [] = []"
| "join c [w] = w"
| "join c (w # ws) = w @ c # join c ws"

text \<open>
  \<^verbatim>\<open>str.isspace\<close> on the code points below 256, for \<^verbatim>\<open>str.rstrip()\<close> without argument.
\<close>

definition isspace :: "char \<Rightarrow> bool" where
  "isspace c =
     (c \<in> set [CHR 0x09, CHR 0x0A, CHR 0x0B, CHR 0x0C, CHR 0x0D, CHR 0x1C, CHR 0x1D, CHR 0x1E,
                CHR 0x1F, CHR 0x20, CHR 0x85, CHR 0xA0])"

definition rstrip :: "string \<Rightarrow> string" where
  "rstrip s = rev (dropWhile isspace (rev s))"

section \<open>The extension table of \<^verbatim>\<open>CORSHTTPRequestHandler\<close>\<close>

text \<open>
  \<^verbatim>\<open>server.py\<close>, lines 17 to 33: the class attribute \<^verbatim>\<open>extensions_map\<close>, a dict literal
  with fifteen distinct keys, in the order of the source.
\<close>

definition extensions_map :: "(string \<times> string) list" where
  "extensions_map =
     [('''', ''application/octet-stream''),
      (''.html'', ''text/html''),
      (''.js'', ''application/javascript''),
      (''.mjs'', ''application/javascript''),
      (''.css'', ''text/css''),
      (''.json'', ''application/json''),
      (''.png'', ''image/png''),
      (''.jpg'', ''image/jpeg''),
      (''.gif'', ''image/gif''),
      (''.svg'', ''image/svg+xml''),
      (''.wav'', ''audio/wav''),
      (''.mp3'', ''audio/mpeg''),
      (''.wasm'', ''application/wasm''),
      (''.epub'', ''application/epub+zip''),
      (''.onnx'', ''application/octet-stream'')]"

section \<open>Paths (\<^verbatim>\<open>posixpath\<close>)\<close>

text \<open>
  \<^verbatim>\<open>genericpath._splitext(p, sep, altsep, extsep)\<close> as \<^verbatim>\<open>posixpath.splitext\<close> calls it
  (\<^verbatim>\<open>sep = '/'\<close>, \<^verbatim>\<open>altsep = None\<close>, \<^verbatim>\<open>extsep = '.'\<close>):
  \<^verbatim>\<open>
  sepIndex = p.rfind(sep)
  dotIndex = p.rfind(extsep)
  if dotIndex > sepIndex:
      # skip all leading dots
      filenameIndex = sepIndex + 1
      while filenameIndex < dotIndex:
          if p[filenameIndex:filenameIndex+1] != extsep:
              return p[:dotIndex], p[dotIndex:]
          filenameIndex += 1
  return p, p[:0]
  \<close>
\<close>

function splitext_loop :: "string \<Rightarrow> nat \<Rightarrow> nat \<Rightarrow> string \<times> string" where
  "splitext_loop p filenameIndex dotIndex =
     (if filenameIndex < dotIndex then
        (if take 1 (drop filenameIndex p) \<noteq> ''.'' then (take dotIndex p, drop dotIndex p)
         else splitext_loop p (filenameIndex + 1) dotIndex)
      else (p, ''''))"
  by pat_completeness auto
termination
  by (relation "measure (\<lambda>(p, filenameIndex, dotIndex). dotIndex - filenameIndex)") auto

declare splitext_loop.simps [simp del]

definition splitext :: "string \<Rightarrow> string \<times> string" where
  "splitext p =
     (let sepIndex = rfind p CHR ''/'';
          dotIndex = rfind p CHR ''.''
      in if dotIndex > sepIndex then splitext_loop p (nat (sepIndex + 1)) (nat dotIndex)
         else (p, ''''))"

text \<open>
  \<^verbatim>\<open>posixpath.dirname(p)\<close>:
  \<^verbatim>\<open>
  i = p.rfind(sep) + 1
  head = p[:i]
  if head and head != sep*len(head):
      head = head.rstrip(sep)
  return head
  \<close>
\<close>

definition os_path_dirname :: "string \<Rightarrow> string" where
  "os_path_dirname p =
     (let i = rfind p CHR ''/'' + 1;
          head = take (nat i) p
      in if head \<noteq> '''' \<and> head \<noteq> replicate (length head) CHR ''/''
         then rev (dropWhile (\<lambda>c. c = CHR ''/'') (rev head))
         else head)"

text \<open>
  \<^verbatim>\<open>posixpath.join(a, b)\<close> with one component \<^verbatim>\<open>b\<close>:
  \<^verbatim>\<open>
  if b.startswith(sep):
      path = b
  elif not path or path.endswith(sep):
      path += b
  else:
      path += sep + b
  \<close>
\<close>

definition os_path_join :: "string \<Rightarrow> string \<Rightarrow> string" where
  "os_path_join a b =
     (if startswith b ''/'' then b
      else if a = '''' \<or> endswith a ''/'' then a @ b
      else a @ ''/'' @ b)"

text \<open>
  \<^verbatim>\<open>posixpath.normpath(path)\<close>. The loop over the components keeps the list
  \<^verbatim>\<open>new_comps\<close>:
  \<^verbatim>\<open>
  for comp in comps:
      if comp in (empty, dot):
          continue
      if (comp != dotdot or (not initial_slashes and not new_comps) or
           (new_comps and new_comps[-1] == dotdot)):
          new_comps.append(comp)
      elif new_comps:
          new_comps.pop()
  \<close>
\<close>

fun normpath_loop :: "bool \<Rightarrow> string list \<Rightarrow> string list \<Rightarrow> string list" where
  "normpath_loop initial_slashes new_comps [] = new_comps"
| "normpath_loop initial_slashes new_comps (component # comps) =
     (if component = '''' \<or> component = ''.'' then normpath_loop initial_slashes new_comps comps
      else if component \<noteq> ''..'' \<or> (\<not> initial_slashes \<and> new_comps = [])
                \<or> (new_comps \<noteq> [] \<and> last new_comps = ''..'')
        then normpath_loop initial_slashes (new_comps @ [component]) comps
      else if new_comps \<noteq> [] then normpath_loop initial_slashes (butlast new_comps) comps
      else normpath_loop initial_slashes new_comps comps)"

definition normpath :: "string \<Rightarrow> string" where
  "normpath p =
     (if p = '''' then ''.''
      else
        (let initial_slashes =
               (if startswith p ''/''
                then (if startswith p ''//'' \<and> \<not> startswith p ''///'' then 2 else 1)
                else (0 :: nat));
             comps = normpath_loop (initial_slashes \<noteq> 0) [] (split CHR ''/'' p);
             q = replicate initial_slashes CHR ''/'' @ join CHR ''/'' comps
         in if q = '''' then ''.'' else q))"

section \<open>What the handler takes from outside\<close>

text \<open>
  An open file, as the handler uses it: the bytes it reads and the two fields of
  \<^verbatim>\<open>os.fstat\<close> that \<^verbatim>\<open>send_head\<close> looks at (\<^verbatim>\<open>st_mtime\<close> in whole seconds, as
  \<^verbatim>\<open>send_head\<close> drops the microseconds before comparing).
\<close>

record open_file =
  content :: bytes
  st_size :: nat
  st_mtime :: int

text \<open>
  The answers of the operating system and the library functions that only format text
  are parameters, collected in one record. Nothing is assumed about them.
  \<^item> \<open>os_isdir\<close>, \<open>os_isfile\<close>, \<open>os_islink\<close>, \<open>os_listdir\<close>: \<^verbatim>\<open>os.path.isdir\<close>,
    \<^verbatim>\<open>os.path.isfile\<close>, \<^verbatim>\<open>os.path.islink\<close>, \<^verbatim>\<open>os.listdir\<close> (\<open>None\<close> for \<^verbatim>\<open>OSError\<close>);
  \<^item> \<open>os_open\<close>: \<^verbatim>\<open>open(path, 'rb')\<close>, \<open>None\<close> for \<^verbatim>\<open>OSError\<close> (the file does not exist
    or cannot be read);
  \<^item> \<open>mimetypes_guess_type\<close>: the first component of \<^verbatim>\<open>mimetypes.guess_type(path)\<close>;
  \<^item> \<open>unquote\<close>: \<^verbatim>\<open>urllib.parse.unquote\<close>; \<open>urlsplit\<close>, \<open>urlunsplit\<close>: of \<^verbatim>\<open>urllib.parse\<close>;
  \<^item> \<open>version_string\<close>, \<open>date_time_string\<close>: the handler's methods of these names
    (\<open>None\<close> for the current time);
  \<^item> \<open>error_html\<close>: the body \<^verbatim>\<open>send_error\<close> formats from \<^verbatim>\<open>error_message_format\<close>, encoded;
  \<^item> \<open>listing_html\<close>: the page \<^verbatim>\<open>list_directory\<close> formats from the request path and, for
    every name, whether it is a directory and whether it is a link, encoded;
  \<^item> \<open>getfilesystemencoding\<close>: \<^verbatim>\<open>sys.getfilesystemencoding()\<close>;
  \<^item> \<open>repr\<close>: \<^verbatim>\<open>'%r' % s\<close>.
\<close>

record env =
  os_isdir :: "string \<Rightarrow> bool"
  os_isfile :: "string \<Rightarrow> bool"
  os_islink :: "string \<Rightarrow> bool"
  os_listdir :: "string \<Rightarrow> string list option"
  os_open :: "string \<Rightarrow> open_file option"
  mimetypes_guess_type :: "string \<Rightarrow> string option"
  unquote :: "string \<Rightarrow> string"
  urlsplit :: "string \<Rightarrow> string \<times> string \<times> string \<times> string \<times> string"
  urlunsplit :: "string \<times> string \<times> string \<times> string \<times> string \<Rightarrow> string"
  version_string :: string
  date_time_string :: "int option \<Rightarrow> string"
  error_html :: "nat \<Rightarrow> string \<Rightarrow> bytes"
  listing_html :: "string \<Rightarrow> (string \<times> bool \<times> bool) list \<Rightarrow> bytes"
  getfilesystemencoding :: string
  repr :: "string \<Rightarrow> string"

section \<open>The request handler\<close>

text \<open>
  The calls the handler makes to the file system are recorded, in order, in \<open>fs_log\<close>.
\<close>

datatype fs_call = IsDir string | IsFile string | IsLink string | ListDir string | Open string

text \<open>
  The handler object after the library's \<^verbatim>\<open>parse_request\<close> has accepted the request line
  and the headers: \<open>command\<close>, \<open>path\<close> and \<open>request_version\<close> are the words of the
  request line. \<open>if_modified_since\<close> stands for the request headers \<^verbatim>\<open>send_head\<close> reads: it
  is \<open>Some t\<close> when \<^verbatim>\<open>If-Modified-Since\<close> is present, \<^verbatim>\<open>If-None-Match\<close> is absent and the
  date parses to the UTC time \<open>t\<close> (in seconds), and \<open>None\<close> otherwise.
  \<open>headers_buffer\<close> is \<^verbatim>\<open>_headers_buffer\<close>. \<open>wfile\<close> is the list of the byte strings
  written to the socket, in order: the bytes on the wire are their concatenation
  (\<^verbatim>\<open>flush_headers\<close> writes the buffered lines joined, which is the same bytes).
\<close>

record handler =
  directory :: string
  command :: string
  path :: string
  request_version :: string
  if_modified_since :: "int option"
  headers_buffer :: "bytes list"
  wfile :: "bytes list"
  close_connection :: bool
  fs_log :: "fs_call list"

definition protocol_version :: string where
  "protocol_version = ''HTTP/1.0''"

definition error_content_type :: string where
  "error_content_type = ''text/html;charset=utf-8''"

definition index_pages :: "string list" where
  "index_pages = [''index.html'', ''index.htm'']"

text \<open>
  \<^verbatim>\<open>BaseHTTPRequestHandler.responses\<close>, the phrase of each status: the entries for the
  statuses this handler sends.
\<close>

definition responses :: "(nat \<times> string) list" where
  "responses =
     [(200, ''OK''), (301, ''Moved Permanently''), (304, ''Not Modified''),
      (404, ''Not Found''), (501, ''Not Implemented'')]"

definition status_line :: "nat \<Rightarrow> string \<Rightarrow> bytes" where
  "status_line code message = protocol_version @ '' '' @ str_nat code @ '' '' @ message @ CRLF"

definition header_line :: "string \<Rightarrow> string \<Rightarrow> bytes" where
  "header_line keyword v = keyword @ '': '' @ v @ CRLF"

text \<open>
  \<^verbatim>\<open>BaseHTTPRequestHandler.send_response_only\<close>:
  \<^verbatim>\<open>
  if self.request_version != 'HTTP/0.9':
      if message is None:
          if code in self.responses: message = self.responses[code][0]
          else: message = ''
      self._headers_buffer.append(("%s %d %s\r\n" %
              (self.protocol_version, code, message)).encode('latin-1', 'strict'))
  \<close>
\<close>

definition send_response_only :: "nat \<Rightarrow> string option \<Rightarrow> handler \<Rightarrow> handler" where
  "send_response_only code message h =
     (if request_version h \<noteq> ''HTTP/0.9'' then
        (let m = (case message of
                    None \<Rightarrow> (case map_of responses code of Some s \<Rightarrow> s | None \<Rightarrow> '''')
                  | Some s \<Rightarrow> s)
         in h\<lparr>headers_buffer := headers_buffer h @ [status_line code m]\<rparr>)
      else h)"

text \<open>
  \<^verbatim>\<open>BaseHTTPRequestHandler.send_header\<close>:
  \<^verbatim>\<open>
  if self.request_version != 'HTTP/0.9':
      self._headers_buffer.append(
          ("%s: %s\r\n" % (keyword, value)).encode('latin-1', 'strict'))
  if keyword.lower() == 'connection':
      if value.lower() == 'close':
          self.close_connection = True
      elif value.lower() == 'keep-alive':
          self.close_connection = False
  \<close>
\<close>

definition send_header :: "string \<Rightarrow> string \<Rightarrow> handler \<Rightarrow> handler" where
  "send_header keyword v h =
     (let h1 = (if request_version h \<noteq> ''HTTP/0.9''
                then h\<lparr>headers_buffer := headers_buffer h @ [header_line keyword v]\<rparr>
                else h)
      in if lower keyword = ''connection'' then
           (if lower v = ''close'' then h1\<lparr>close_connection := True\<rparr>
            else if lower v = ''keep-alive'' then h1\<lparr>close_connection := False\<rparr>
            else h1)
         else h1)"

text \<open>\<^verbatim>\<open>BaseHTTPRequestHandler.flush_headers\<close>.\<close>

definition flush_headers :: "handler \<Rightarrow> handler" where
  "flush_headers h = h\<lparr>wfile := wfile h @ headers_buffer h, headers_buffer := []\<rparr>"

text \<open>
  \<^verbatim>\<open>BaseHTTPRequestHandler.end_headers\<close>, which the subclass reaches as
  \<^verbatim>\<open>super().end_headers()\<close>:
  \<^verbatim>\<open>
  if self.request_version != 'HTTP/0.9':
      self._headers_buffer.append(b"\r\n")
      self.flush_headers()
  \<close>
\<close>

definition super_end_headers :: "handler \<Rightarrow> handler" where
  "super_end_headers h =
     (if request_version h \<noteq> ''HTTP/0.9''
      then flush_headers (h\<lparr>headers_buffer := headers_buffer h @ [CRLF]\<rparr>)
      else h)"

text \<open>
  \<^verbatim>\<open>server.py\<close>, lines 35 to 43: \<^verbatim>\<open>CORSHTTPRequestHandler.end_headers\<close>. Every call of
  \<^verbatim>\<open>self.end_headers()\<close> in the inherited methods reaches this override.
\<close>

definition end_headers :: "handler \<Rightarrow> handler" where
  "end_headers h =
     (let h1 = send_header ''Access-Control-Allow-Origin'' ''*'' h;
          h2 = send_header ''Access-Control-Allow-Methods'' ''GET, POST, OPTIONS'' h1;
          h3 = send_header ''Access-Control-Allow-Headers'' ''*'' h2
      in super_end_headers h3)"

text \<open>
  \<^verbatim>\<open>BaseHTTPRequestHandler.send_response\<close> (the call of \<^verbatim>\<open>log_request\<close>, which writes a
  line to the standard error stream, is left out):
  \<^verbatim>\<open>
  self.send_response_only(code, message)
  self.send_header('Server', self.version_string())
  self.send_header('Date', self.date_time_string())
  \<close>
\<close>

definition send_response :: "env \<Rightarrow> nat \<Rightarrow> string option \<Rightarrow> handler \<Rightarrow> handler" where
  "send_response E code message h =
     (let h1 = send_response_only code message h;
          h2 = send_header ''Server'' (version_string E) h1
      in send_header ''Date'' (date_time_string E None) h2)"

text \<open>\<^verbatim>\<open>server.py\<close>, lines 45 to 47: \<^verbatim>\<open>CORSHTTPRequestHandler.do_OPTIONS\<close>.\<close>

definition do_OPTIONS :: "env \<Rightarrow> handler \<Rightarrow> handler" where
  "do_OPTIONS E h = end_headers (send_response E 200 None h)"

text \<open>
  \<^verbatim>\<open>SimpleHTTPRequestHandler.guess_type\<close>, with the table of the subclass:
  \<^verbatim>\<open>
  base, ext = posixpath.splitext(path)
  if ext in self.extensions_map:
      return self.extensions_map[ext]
  ext = ext.lower()
  if ext in self.extensions_map:
      return self.extensions_map[ext]
  guess, _ = mimetypes.guess_type(path)
  if guess:
      return guess
  return 'application/octet-stream'
  \<close>
\<close>

definition guess_type :: "env \<Rightarrow> string \<Rightarrow> string" where
  "guess_type E p =
     (let ext = snd (splitext p) in
      case map_of extensions_map ext of
        Some t \<Rightarrow> t
      | None \<Rightarrow>
          (let ext = lower ext in
           case map_of extensions_map ext of
             Some t \<Rightarrow> t
           | None \<Rightarrow>
               (case mimetypes_guess_type E p of
                  Some guess \<Rightarrow> if guess \<noteq> '''' then guess else ''application/octet-stream''
                | None \<Rightarrow> ''application/octet-stream'')))"

text \<open>
  \<^verbatim>\<open>SimpleHTTPRequestHandler.translate_path\<close>. Its loop:
  \<^verbatim>\<open>
  path = self.directory
  for word in words:
      if os.path.dirname(word) or word in (os.curdir, os.pardir):
          # Ignore components that are not a simple file/directory name
          continue
      path = os.path.join(path, word)
  \<close>
\<close>

fun translate_path_loop :: "string \<Rightarrow> string list \<Rightarrow> string" where
  "translate_path_loop p [] = p"
| "translate_path_loop p (w # ws) =
     (if os_path_dirname w \<noteq> '''' \<or> w = ''.'' \<or> w = ''..'' then translate_path_loop p ws
      else translate_path_loop (os_path_join p w) ws)"

text \<open>
  \<^verbatim>\<open>
  path = path.split('?',1)[0]
  path = path.split('#',1)[0]
  trailing_slash = path.rstrip().endswith('/')
  path = urllib.parse.unquote(path, errors='surrogatepass')
  path = posixpath.normpath(path)
  words = path.split('/')
  words = filter(None, words)
  ... the loop ...
  if trailing_slash:
      path += '/'
  return path
  \<close>
\<close>

definition translate_path :: "env \<Rightarrow> string \<Rightarrow> string \<Rightarrow> string" where
  "translate_path E dir p =
     (let p1 = takeWhile (\<lambda>c. c \<noteq> CHR ''?'') p;
          p2 = takeWhile (\<lambda>c. c \<noteq> CHR ''#'') p1;
          trailing_slash = endswith (rstrip p2) ''/'';
          p3 = normpath (unquote E p2);
          ws = filter (\<lambda>w. w \<noteq> '''') (split CHR ''/'' p3);
          q = translate_path_loop dir ws
      in if trailing_slash then q @ ''/'' else q)"

text \<open>
  \<^verbatim>\<open>BaseHTTPRequestHandler.send_error(code, message)\<close>, as the handler calls it (always
  with a message; the logging is left out):
  \<^verbatim>\<open>
  self.send_response(code, message)
  self.send_header('Connection', 'close')
  body = None
  if (code >= 200 and
      code not in (HTTPStatus.NO_CONTENT, HTTPStatus.RESET_CONTENT, HTTPStatus.NOT_MODIFIED)):
      content = (self.error_message_format % {...})
      body = content.encode('UTF-8', 'replace')
      self.send_header("Content-Type", self.error_content_type)
      self.send_header('Content-Length', str(len(body)))
  self.end_headers()
  if self.command != 'HEAD' and body:
      self.wfile.write(body)
  \<close>
\<close>

definition send_error :: "env \<Rightarrow> nat \<Rightarrow> string \<Rightarrow> handler \<Rightarrow> handler" where
  "send_error E code message h =
     (let h1 = send_response E code (Some message) h;
          h2 = send_header ''Connection'' ''close'' h1;
          body = (if code \<ge> 200 \<and> code \<notin> {204, 205, 304}
                  then Some (error_html E code message) else None);
          h3 = (case body of
                  None \<Rightarrow> h2
                | Some b \<Rightarrow> send_header ''Content-Length'' (str_nat (length b))
                              (send_header ''Content-Type'' error_content_type h2));
          h4 = end_headers h3
      in case body of
           None \<Rightarrow> h4
         | Some b \<Rightarrow> if command h \<noteq> ''HEAD'' \<and> b \<noteq> '''' then h4\<lparr>wfile := wfile h4 @ [b]\<rparr> else h4)"

text \<open>
  \<^verbatim>\<open>SimpleHTTPRequestHandler.list_directory\<close>: \<^verbatim>\<open>os.listdir\<close>, the sort
  (\<^verbatim>\<open>list.sort(key=lambda a: a.lower())\<close>), for every name the two tests on
  \<^verbatim>\<open>os.path.join(path, name)\<close>, and the headers. The returned value is the page, which
  the caller copies to the socket.
\<close>

definition list_directory :: "env \<Rightarrow> string \<Rightarrow> handler \<Rightarrow> bytes option \<times> handler" where
  "list_directory E p h =
     (let h1 = h\<lparr>fs_log := fs_log h @ [ListDir p]\<rparr> in
      case os_listdir E p of
        None \<Rightarrow> (None, send_error E 404 ''No permission to list directory'' h1)
      | Some names \<Rightarrow>
          (let sorted_names = sort_key lower names;
               entries = map (\<lambda>name. (name, os_isdir E (os_path_join p name),
                                        os_islink E (os_path_join p name))) sorted_names;
               h2 = h1\<lparr>fs_log := fs_log h1 @
                      concat (map (\<lambda>name. [IsDir (os_path_join p name), IsLink (os_path_join p name)])
                                  sorted_names)\<rparr>;
               encoded = listing_html E (path h) entries;
               h3 = send_response E 200 None h2;
               h4 = send_header ''Content-type'' (''text/html; charset='' @ getfilesystemencoding E) h3;
               h5 = send_header ''Content-Length'' (str_nat (length encoded)) h4
           in (Some encoded, end_headers h5)))"

text \<open>
  \<^verbatim>\<open>SimpleHTTPRequestHandler.send_head\<close>, in three pieces. The search for an index page:
  \<^verbatim>\<open>
  for index in self.index_pages:
      index = os.path.join(path, index)
      if os.path.isfile(index):
          path = index
          break
  else:
      return self.list_directory(path)
  \<close>
\<close>

fun find_index_page :: "env \<Rightarrow> string \<Rightarrow> string list \<Rightarrow> handler \<Rightarrow> string option \<times> handler" where
  "find_index_page E p [] h = (None, h)"
| "find_index_page E p (name # names) h =
     (let ix = os_path_join p name;
          h1 = h\<lparr>fs_log := fs_log h @ [IsFile ix]\<rparr>
      in if os_isfile E ix then (Some ix, h1) else find_index_page E p names h1)"

text \<open>
  The part of \<^verbatim>\<open>send_head\<close> from \<^verbatim>\<open>ctype = self.guess_type(path)\<close> to its end:
  \<^verbatim>\<open>
  ctype = self.guess_type(path)
  if path.endswith("/"):
      self.send_error(HTTPStatus.NOT_FOUND, "File not found")
      return None
  try:
      f = open(path, 'rb')
  except OSError:
      self.send_error(HTTPStatus.NOT_FOUND, "File not found")
      return None
  fs = os.fstat(f.fileno())
  if ("If-Modified-Since" in self.headers and "If-None-Match" not in self.headers):
      ... if last_modif <= ims:
              self.send_response(HTTPStatus.NOT_MODIFIED)
              self.end_headers()
              f.close()
              return None
  self.send_response(HTTPStatus.OK)
  self.send_header("Content-type", ctype)
  self.send_header("Content-Length", str(fs[6]))
  self.send_header("Last-Modified", self.date_time_string(fs.st_mtime))
  self.end_headers()
  return f
  \<close>
\<close>

definition send_head_file :: "env \<Rightarrow> string \<Rightarrow> handler \<Rightarrow> bytes option \<times> handler" where
  "send_head_file E p h =
     (let ctype = guess_type E p in
      if endswith p ''/'' then (None, send_error E 404 ''File not found'' h)
      else
        (let h1 = h\<lparr>fs_log := fs_log h @ [Open p]\<rparr> in
         case os_open E p of
           None \<Rightarrow> (None, send_error E 404 ''File not found'' h1)
         | Some f \<Rightarrow>
             if (case if_modified_since h of None \<Rightarrow> False | Some ims \<Rightarrow> st_mtime f \<le> ims)
             then (None, end_headers (send_response E 304 None h1))
             else
               (let h2 = send_response E 200 None h1;
                    h3 = send_header ''Content-type'' ctype h2;
                    h4 = send_header ''Content-Length'' (str_nat (st_size f)) h3;
                    h5 = send_header ''Last-Modified'' (date_time_string E (Some (st_mtime f))) h4
                in (Some (content f), end_headers h5))))"

text \<open>
  The beginning of \<^verbatim>\<open>send_head\<close>:
  \<^verbatim>\<open>
  path = self.translate_path(self.path)
  f = None
  if os.path.isdir(path):
      parts = urllib.parse.urlsplit(self.path)
      if not parts.path.endswith('/'):
          self.send_response(HTTPStatus.MOVED_PERMANENTLY)
          new_parts = (parts[0], parts[1], parts[2] + '/', parts[3], parts[4])
          new_url = urllib.parse.urlunsplit(new_parts)
          self.send_header("Location", new_url)
          self.send_header("Content-Length", "0")
          self.end_headers()
          return None
      ... the search for an index page ...
  \<close>
\<close>

definition send_head :: "env \<Rightarrow> handler \<Rightarrow> bytes option \<times> handler" where
  "send_head E h =
     (let p = translate_path E (directory h) (path h);
          h1 = h\<lparr>fs_log := fs_log h @ [IsDir p]\<rparr>
      in if os_isdir E p then
           (case urlsplit E (path h) of
              (scheme, netloc, upath, query, fragment) \<Rightarrow>
                if \<not> endswith upath ''/'' then
                  (let h2 = send_response E 301 None h1;
                       new_url = urlunsplit E (scheme, netloc, upath @ ''/'', query, fragment);
                       h3 = send_header ''Location'' new_url h2;
                       h4 = send_header ''Content-Length'' ''0'' h3
                   in (None, end_headers h4))
                else
                  (case find_index_page E p index_pages h1 of
                     (Some ix, h2) \<Rightarrow> send_head_file E ix h2
                   | (None, h2) \<Rightarrow> list_directory E p h2))
         else send_head_file E p h1)"

text \<open>
  \<^verbatim>\<open>SimpleHTTPRequestHandler.do_GET\<close> and \<^verbatim>\<open>do_HEAD\<close>. \<^verbatim>\<open>copyfile\<close> writes the bytes of
  the file to the socket.
  \<^verbatim>\<open>
  f = self.send_head()
  if f:
      try:
          self.copyfile(f, self.wfile)
      finally:
          f.close()
  \<close>
\<close>

definition do_GET :: "env \<Rightarrow> handler \<Rightarrow> handler" where
  "do_GET E h =
     (case send_head E h of
        (Some f, h1) \<Rightarrow> h1\<lparr>wfile := wfile h1 @ [f]\<rparr>
      | (None, h1) \<Rightarrow> h1)"

definition do_HEAD :: "env \<Rightarrow> handler \<Rightarrow> handler" where
  "do_HEAD E h = snd (send_head E h)"

text \<open>
  \<^verbatim>\<open>BaseHTTPRequestHandler.handle_one_request\<close> after \<^verbatim>\<open>parse_request\<close> has returned
  \<^verbatim>\<open>True\<close>. The methods of \<^verbatim>\<open>CORSHTTPRequestHandler\<close> whose names begin with \<^verbatim>\<open>do_\<close> are
  \<^verbatim>\<open>do_GET\<close> and \<^verbatim>\<open>do_HEAD\<close> (inherited) and \<^verbatim>\<open>do_OPTIONS\<close>.
  \<^verbatim>\<open>
  mname = 'do_' + self.command
  if not hasattr(self, mname):
      self.send_error(HTTPStatus.NOT_IMPLEMENTED, "Unsupported method (%r)" % self.command)
      return
  method = getattr(self, mname)
  method()
  \<close>
\<close>

definition handle_one_request :: "env \<Rightarrow> handler \<Rightarrow> handler" where
  "handle_one_request E h =
     (if command h = ''GET'' then do_GET E h
      else if command h = ''HEAD'' then do_HEAD E h
      else if command h = ''OPTIONS'' then do_OPTIONS E h
      else send_error E 501 (''Unsupported method ('' @ repr E (command h) @ '')'') h)"

text \<open>
  A request as \<^verbatim>\<open>parse_request\<close> accepts it: the words of the request line, and the
  headers as described at \<open>if_modified_since\<close>. \<^verbatim>\<open>parse_request\<close> accepts a request line
  of two words when the first is \<^verbatim>\<open>GET\<close> (the version is then \<^verbatim>\<open>HTTP/0.9\<close>), and one of
  three words when the third is \<^verbatim>\<open>HTTP/\<close>\<open>m\<close>\<^verbatim>\<open>.\<close>\<open>n\<close> with numbers \<open>m\<close> and \<open>n\<close> and
  \<open>m < 2\<close>. It replaces several slashes at the beginning of the path by one, and leaves
  \<^verbatim>\<open>close_connection\<close> true (\<^verbatim>\<open>protocol_version\<close> is \<^verbatim>\<open>HTTP/1.0\<close>).
\<close>

record request =
  r_command :: string
  r_path :: string
  r_version :: string
  r_if_modified_since :: "int option"

definition handler_for :: "string \<Rightarrow> request \<Rightarrow> handler" where
  "handler_for dir r =
     \<lparr>directory = dir,
      command = r_command r,
      path = (if startswith (r_path r) ''//''
              then ''/'' @ dropWhile (\<lambda>c. c = CHR ''/'') (r_path r) else r_path r),
      request_version = r_version r,
      if_modified_since = r_if_modified_since r,
      headers_buffer = [],
      wfile = [],
      close_connection = True,
      fs_log = []\<rparr>"

text \<open>What the server writes to the socket for a request, and the handler it leaves.\<close>

definition handle :: "env \<Rightarrow> string \<Rightarrow> request \<Rightarrow> handler" where
  "handle E dir r = handle_one_request E (handler_for dir r)"

definition respond :: "env \<Rightarrow> string \<Rightarrow> request \<Rightarrow> bytes list" where
  "respond E dir r = wfile (handle E dir r)"

section \<open>The server process\<close>

text \<open>\<^verbatim>\<open>server.py\<close>, line 10.\<close>

definition PORT :: nat where
  "PORT = 8090"

text \<open>
  What the process does to the outside, in order: the events of a run. An event is
  recorded when the call has succeeded.
\<close>

datatype event =
    Chdir string
  | Bind "string \<times> nat"
  | Print string
  | WebbrowserOpen string
  | ServeForever
  | Response "bytes list"
  | ServerClose

datatype py_exception = OSError | KeyboardInterrupt | OtherException

text \<open>
  What reaches \<^verbatim>\<open>serve_forever\<close>: a connection carrying a request, or an exception raised
  in the loop (\<^verbatim>\<open>KeyboardInterrupt\<close> when the operator interrupts the process).
\<close>

datatype input = Connection request | Raise py_exception

text \<open>
  The world of a run: the absolute path of the script (\<^verbatim>\<open>os.path.abspath(__file__)\<close>),
  whether \<^verbatim>\<open>os.chdir\<close> to a directory succeeds, whether the server socket can be bound
  to an address, what arrives while the server serves, and the parameters of the
  handler. Writing to the standard output and \<^verbatim>\<open>webbrowser.open\<close> are taken to return.
\<close>

record world =
  script_path :: string
  os_chdir :: "string \<Rightarrow> bool"
  server_bind :: "string \<times> nat \<Rightarrow> bool"
  inputs :: "input list"
  lib :: env

text \<open>\<^verbatim>\<open>server.py\<close>, line 12.\<close>

definition DIRECTORY :: "world \<Rightarrow> string" where
  "DIRECTORY W = os_path_dirname (os_path_dirname (script_path W))"

text \<open>
  \<^verbatim>\<open>socketserver.BaseServer.serve_forever\<close> with \<^verbatim>\<open>TCPServer\<close>: one connection at a time,
  each handled to its end by a new handler object (one request per connection, as
  \<^verbatim>\<open>close_connection\<close> stays true). The loop returns only through an exception; when the
  inputs are used up it waits for the next connection, and the result says so with
  \<open>None\<close> in the place of the exception.
\<close>

fun serve_forever :: "env \<Rightarrow> string \<Rightarrow> input list \<Rightarrow> event list \<times> py_exception option" where
  "serve_forever E dir [] = ([], None)"
| "serve_forever E dir (Connection r # rest) =
     (case serve_forever E dir rest of (evs, e) \<Rightarrow> (Response (respond E dir r) # evs, e))"
| "serve_forever E dir (Raise e # rest) = ([], Some e)"

text \<open>
  The two texts \<^verbatim>\<open>run_server\<close> prints (\<^verbatim>\<open>server.py\<close>, lines 56 to 66 and line 74), as
  the UTF-8 bytes of the source. \<^verbatim>\<open>{url:<40}\<close> pads the URL with spaces on the right to
  forty characters.
\<close>

definition ljust :: "string \<Rightarrow> nat \<Rightarrow> string" where
  "ljust s n = s @ replicate (n - length s) CHR '' ''"

definition box_line :: "char \<Rightarrow> char \<Rightarrow> string" where
  "box_line l r =
     [CHR 0xE2, CHR 0x95, l] @ concat (replicate 66 [CHR 0xE2, CHR 0x95, CHR 0x90])
       @ [CHR 0xE2, CHR 0x95, r]"

definition box_text :: "string \<Rightarrow> string" where
  "box_text s = [CHR 0xE2, CHR 0x95, CHR 0x91] @ s @ [CHR 0xE2, CHR 0x95, CHR 0x91]"

definition banner :: "string \<Rightarrow> string" where
  "banner url =
     [CHR 0x0A] @ box_line (CHR 0x94) (CHR 0x97) @ [CHR 0x0A]
     @ box_text (replicate 66 CHR '' '') @ [CHR 0x0A]
     @ box_text (''   '' @ [CHR 0xF0, CHR 0x9F, CHR 0x93, CHR 0x9A]
                 @ '' EPUB to Audiobook Converter'' @ replicate 33 CHR '' '') @ [CHR 0x0A]
     @ box_text (replicate 66 CHR '' '') @ [CHR 0x0A]
     @ box_text (''   Server running at: '' @ ljust url 40 @ '' '') @ [CHR 0x0A]
     @ box_text (replicate 66 CHR '' '') @ [CHR 0x0A]
     @ box_text (''   Press Ctrl+C to stop the server'' @ replicate 31 CHR '' '') @ [CHR 0x0A]
     @ box_text (replicate 66 CHR '' '') @ [CHR 0x0A]
     @ box_line (CHR 0x9A) (CHR 0x9D) @ [CHR 0x0A]
     @ replicate 8 CHR '' ''"

definition farewell :: string where
  "farewell =
     [CHR 0x0A, CHR 0x0A, CHR 0xF0, CHR 0x9F, CHR 0x91, CHR 0x8B] @ '' Server stopped. Goodbye!''"

text \<open>
  \<^verbatim>\<open>server.py\<close>, lines 49 to 74: \<^verbatim>\<open>run_server\<close>. \<^verbatim>\<open>os.chdir\<close> and the constructor of
  \<^verbatim>\<open>TCPServer\<close> (which binds the socket) are outside the \<^verbatim>\<open>try\<close>, so their
  \<^verbatim>\<open>OSError\<close> leaves \<^verbatim>\<open>run_server\<close>; the \<^verbatim>\<open>try\<close> around \<^verbatim>\<open>serve_forever\<close> catches
  \<^verbatim>\<open>KeyboardInterrupt\<close> only; leaving the \<^verbatim>\<open>with\<close> block closes the server.
\<close>

datatype outcome = Returned | Raised py_exception | Serving

definition run_server :: "world \<Rightarrow> event list \<times> outcome" where
  "run_server W =
     (if \<not> os_chdir W (DIRECTORY W) then ([], Raised OSError)
      else if \<not> server_bind W ('''', PORT) then ([Chdir (DIRECTORY W)], Raised OSError)
      else
        (let url = ''http://localhost:'' @ str_nat PORT @ ''/web/'';
             started = [Chdir (DIRECTORY W), Bind ('''', PORT), Print (banner url),
                        WebbrowserOpen url, ServeForever]
         in case serve_forever (lib W) (DIRECTORY W) (inputs W) of
              (evs, None) \<Rightarrow> (started @ evs, Serving)
            | (evs, Some e) \<Rightarrow>
                if e = KeyboardInterrupt
                then (started @ evs @ [Print farewell, ServerClose], Returned)
                else (started @ evs @ [ServerClose], Raised e)))"

text \<open>
  \<^verbatim>\<open>server.py\<close>, lines 76 and 77: the script calls \<^verbatim>\<open>run_server()\<close>. The interpreter
  exits with status 0 when the call returns and with status 1 when an exception leaves
  it; while the server serves, the process has not exited.
\<close>

definition exit_status :: "world \<Rightarrow> nat option" where
  "exit_status W =
     (case snd (run_server W) of
        Returned \<Rightarrow> Some 0
      | Raised e \<Rightarrow> Some 1
      | Serving \<Rightarrow> None)"

section \<open>Reading a response\<close>

text \<open>
  The head of a response is what is written before the empty line; its first line is
  the status line and the others are the headers. The body is what is written after
  the empty line.
\<close>

definition response_head :: "bytes list \<Rightarrow> bytes list" where
  "response_head w = takeWhile (\<lambda>l. l \<noteq> CRLF) w"

definition response_headers :: "bytes list \<Rightarrow> bytes list" where
  "response_headers w = tl (response_head w)"


text \<open>The three headers of \<^verbatim>\<open>end_headers\<close>, as the lines they are on the wire.\<close>

definition cors_headers :: "bytes list" where
  "cors_headers =
     [header_line ''Access-Control-Allow-Origin'' ''*'',
      header_line ''Access-Control-Allow-Methods'' ''GET, POST, OPTIONS'',
      header_line ''Access-Control-Allow-Headers'' ''*'']"



text \<open>
  The shape of a response with a head: the status line, the two headers of
  \<^verbatim>\<open>send_response\<close>, other headers, the three headers of \<^verbatim>\<open>end_headers\<close>, the empty
  line, and then the body.
\<close>

definition response_shape :: "env \<Rightarrow> bytes list \<Rightarrow> bool" where
  "response_shape E w =
     (\<exists>c m others body.
        w = status_line c m # header_line ''Server'' (version_string E)
              # header_line ''Date'' (date_time_string E None)
              # others @ cors_headers @ CRLF # body
        \<and> CRLF \<notin> set others)"

text \<open>A header line has a given name; the names of headers are compared without case.\<close>

definition header_named :: "string \<Rightarrow> bytes \<Rightarrow> bool" where
  "header_named k l = (lower (takeWhile (\<lambda>c. c \<noteq> CHR '':'') l) = lower k)"

section \<open>An installation, for the examples\<close>

text \<open>
  The script is \<^verbatim>\<open>/srv/app/web/server.py\<close>, so the directory served is \<^verbatim>\<open>/srv/app\<close>. The
  directory \<^verbatim>\<open>/srv/app/web\<close> holds the files below. The request paths of the examples
  have no \<^verbatim>\<open>%\<close>, query or fragment, so \<^verbatim>\<open>unquote\<close> returns them as they are and
  \<^verbatim>\<open>urlsplit\<close> returns them as the path component. The \<^verbatim>\<open>mimetypes\<close> database knows
  \<^verbatim>\<open>.txt\<close>.
\<close>

definition example_files :: "(string \<times> open_file) list" where
  "example_files =
     [(''/srv/app/web/index.html'', \<lparr>content = ''<html></html>'', st_size = 13, st_mtime = 1700000000\<rparr>),
      (''/srv/app/web/app.js'', \<lparr>content = ''main()'', st_size = 6, st_mtime = 1700000000\<rparr>),
      (''/srv/app/web/.html'', \<lparr>content = ''x'', st_size = 1, st_mtime = 1700000000\<rparr>),
      (''/srv/app/web/notes.txt'', \<lparr>content = ''hello'', st_size = 5, st_mtime = 1700000000\<rparr>),
      (''/srv/app/web/LOGO.PNG'', \<lparr>content = ''PNG'', st_size = 3, st_mtime = 1700000000\<rparr>),
      (''/srv/app/web/data.bin'', \<lparr>content = ''0'', st_size = 1, st_mtime = 1700000000\<rparr>),
      (''/srv/app/web/Makefile'', \<lparr>content = ''all:'', st_size = 4, st_mtime = 1700000000\<rparr>)]"

definition example_env :: env where
  "example_env =
     \<lparr>os_isdir = (\<lambda>p. p \<in> set [''/srv/app'', ''/srv/app/'', ''/srv/app/web'', ''/srv/app/web/'']),
      os_isfile = (\<lambda>p. p \<in> set (map fst example_files)),
      os_islink = (\<lambda>p. False),
      os_listdir = (\<lambda>p. if p \<in> set [''/srv/app'', ''/srv/app/''] then Some [''web''] else None),
      os_open = map_of example_files,
      mimetypes_guess_type = (\<lambda>p. if endswith p ''.txt'' then Some ''text/plain'' else None),
      unquote = (\<lambda>p. p),
      urlsplit = (\<lambda>p. ('''', '''', p, '''', '''')),
      urlunsplit = (\<lambda>(scheme, netloc, upath, query, fragment). upath),
      version_string = ''SimpleHTTP/0.6 Python/3.12.3'',
      date_time_string = (\<lambda>t. ''Thu, 01 Jan 1970 00:00:00 GMT''),
      error_html = (\<lambda>code message. ''<p>Error code: '' @ str_nat code @ ''</p>''),
      listing_html = (\<lambda>p entries. ''<ul></ul>''),
      getfilesystemencoding = ''utf-8'',
      repr = (\<lambda>s. [CHR 0x27] @ s @ [CHR 0x27])\<rparr>"

definition req :: "string \<Rightarrow> string \<Rightarrow> string \<Rightarrow> request" where
  "req c p v = \<lparr>r_command = c, r_path = p, r_version = v, r_if_modified_since = None\<rparr>"

definition example_world :: "bool \<Rightarrow> bool \<Rightarrow> input list \<Rightarrow> world" where
  "example_world chdir_ok bind_ok ins =
     \<lparr>script_path = ''/srv/app/web/server.py'',
      os_chdir = (\<lambda>d. chdir_ok),
      server_bind = (\<lambda>a. bind_ok),
      inputs = ins,
      lib = example_env\<rparr>"

section \<open>What each header-writing method does to the handler\<close>

lemma CRLF_not_header_line: "header_line k v \<noteq> CRLF"
  by (auto simp: header_line_def CRLF_def append_eq_Cons_conv)

lemma CRLF_not_status_line: "status_line c m \<noteq> CRLF"
  by (auto simp: status_line_def protocol_version_def CRLF_def)

lemma send_header_fields:
  "wfile (send_header k v h) = wfile h"
  "fs_log (send_header k v h) = fs_log h"
  "request_version (send_header k v h) = request_version h"
  "command (send_header k v h) = command h"
  "path (send_header k v h) = path h"
  "directory (send_header k v h) = directory h"
  "if_modified_since (send_header k v h) = if_modified_since h"
  "headers_buffer (send_header k v h) =
     (if request_version h \<noteq> ''HTTP/0.9'' then headers_buffer h @ [header_line k v]
      else headers_buffer h)"
  by (simp_all add: send_header_def Let_def)

lemma send_response_only_fields:
  "wfile (send_response_only c m h) = wfile h"
  "fs_log (send_response_only c m h) = fs_log h"
  "request_version (send_response_only c m h) = request_version h"
  "command (send_response_only c m h) = command h"
  "path (send_response_only c m h) = path h"
  "directory (send_response_only c m h) = directory h"
  "if_modified_since (send_response_only c m h) = if_modified_since h"
  "headers_buffer (send_response_only c m h) =
     (if request_version h \<noteq> ''HTTP/0.9''
      then headers_buffer h @
           [status_line c (case m of
                             None \<Rightarrow> (case map_of responses c of Some s \<Rightarrow> s | None \<Rightarrow> '''')
                           | Some s \<Rightarrow> s)]
      else headers_buffer h)"
  by (simp_all add: send_response_only_def Let_def)

lemma send_response_fields:
  "wfile (send_response E c m h) = wfile h"
  "fs_log (send_response E c m h) = fs_log h"
  "request_version (send_response E c m h) = request_version h"
  "command (send_response E c m h) = command h"
  "path (send_response E c m h) = path h"
  "directory (send_response E c m h) = directory h"
  "if_modified_since (send_response E c m h) = if_modified_since h"
  "headers_buffer (send_response E c m h) =
     (if request_version h \<noteq> ''HTTP/0.9''
      then headers_buffer h @
           [status_line c (case m of
                             None \<Rightarrow> (case map_of responses c of Some s \<Rightarrow> s | None \<Rightarrow> '''')
                           | Some s \<Rightarrow> s),
            header_line ''Server'' (version_string E),
            header_line ''Date'' (date_time_string E None)]
      else headers_buffer h)"
  by (simp_all add: send_response_def Let_def send_header_fields send_response_only_fields)

text \<open>
  The override of \<^verbatim>\<open>end_headers\<close>: for a request version other than \<^verbatim>\<open>HTTP/0.9\<close> it
  writes the buffered lines, then the three headers, then the empty line; for
  \<^verbatim>\<open>HTTP/0.9\<close> it writes nothing.
\<close>

lemma end_headers_fields:
  "fs_log (end_headers h) = fs_log h"
  "request_version (end_headers h) = request_version h"
  "command (end_headers h) = command h"
  "path (end_headers h) = path h"
  "directory (end_headers h) = directory h"
  "if_modified_since (end_headers h) = if_modified_since h"
  "headers_buffer (end_headers h) =
     (if request_version h \<noteq> ''HTTP/0.9'' then [] else headers_buffer h)"
  "wfile (end_headers h) =
     (if request_version h \<noteq> ''HTTP/0.9''
      then wfile h @ headers_buffer h @ cors_headers @ [CRLF]
      else wfile h)"
  by (simp_all add: end_headers_def Let_def super_end_headers_def flush_headers_def
        send_header_fields cors_headers_def)

lemma send_error_fields:
  "fs_log (send_error E c m h) = fs_log h"
  "request_version (send_error E c m h) = request_version h"
  by (simp_all add: send_error_def Let_def send_header_fields send_response_fields
        end_headers_fields split: option.splits)

lemma send_error_wfile:
  "request_version h \<noteq> ''HTTP/0.9'' \<Longrightarrow>
   wfile (send_error E c m h) =
     wfile h @ headers_buffer h
     @ [status_line c m, header_line ''Server'' (version_string E),
        header_line ''Date'' (date_time_string E None), header_line ''Connection'' ''close'']
     @ (if 200 \<le> c \<and> c \<notin> {204, 205, 304}
        then [header_line ''Content-Type'' error_content_type,
              header_line ''Content-Length'' (str_nat (length (error_html E c m)))]
        else [])
     @ cors_headers @ [CRLF]
     @ (if 200 \<le> c \<and> c \<notin> {204, 205, 304} \<and> command h \<noteq> ''HEAD''
           \<and> error_html E c m \<noteq> ''''
        then [error_html E c m] else [])"
  by (simp add: send_error_def Let_def send_header_fields send_response_fields
        end_headers_fields)


lemma takeWhile_cors_headers:
  "takeWhile (\<lambda>l. l \<noteq> CRLF) (cors_headers @ CRLF # b) = cors_headers"
  by (simp add: cors_headers_def CRLF_not_header_line)


section \<open>Every answer to a request with a head has the same shape\<close>

lemma response_shape_base:
  "response_shape E (status_line c m # header_line ''Server'' (version_string E)
     # header_line ''Date'' (date_time_string E None) # cors_headers @ CRLF # body)"
  unfolding response_shape_def
  by (intro exI[of _ c] exI[of _ m] exI[of _ "[]"] exI[of _ body]) simp

lemma response_shape_Cons:
  assumes "x \<noteq> CRLF"
    and "response_shape E (status_line c m # header_line ''Server'' (version_string E)
           # header_line ''Date'' (date_time_string E None) # t)"
  shows "response_shape E (status_line c m # header_line ''Server'' (version_string E)
           # header_line ''Date'' (date_time_string E None) # x # t)"
proof -
  from assms(2) obtain c' m' others body where
    eq: "status_line c m # header_line ''Server'' (version_string E)
           # header_line ''Date'' (date_time_string E None) # t
         = status_line c' m' # header_line ''Server'' (version_string E)
           # header_line ''Date'' (date_time_string E None) # others @ cors_headers @ CRLF # body"
    and no: "CRLF \<notin> set others"
    unfolding response_shape_def by blast
  from eq have t: "t = others @ cors_headers @ CRLF # body" and st: "status_line c m = status_line c' m'"
    by simp_all
  show ?thesis
    unfolding response_shape_def
    by (intro exI[of _ c] exI[of _ m] exI[of _ "x # others"] exI[of _ body])
       (use assms(1) no t in simp)
qed



lemma send_error_shape:
  assumes "request_version h \<noteq> ''HTTP/0.9''" "wfile h = []" "headers_buffer h = []"
  shows "response_shape E (wfile (send_error E c m h))"
  using assms
  by (auto simp: send_error_wfile CRLF_not_header_line
      intro!: response_shape_Cons response_shape_base)



lemma send_head_file_shape:
  assumes "request_version h \<noteq> ''HTTP/0.9''" "wfile h = []" "headers_buffer h = []"
  shows "response_shape E (wfile (snd (send_head_file E p h)))"
  using assms
  by (auto simp: send_head_file_def Let_def send_error_shape send_response_fields
        send_header_fields end_headers_fields CRLF_not_header_line
      split: option.splits
      intro!: response_shape_Cons response_shape_base)

lemma list_directory_shape:
  assumes "request_version h \<noteq> ''HTTP/0.9''" "wfile h = []" "headers_buffer h = []"
  shows "response_shape E (wfile (snd (list_directory E p h)))"
  using assms
  by (auto simp: list_directory_def Let_def send_error_shape send_response_fields
        send_header_fields end_headers_fields CRLF_not_header_line
      split: option.splits
      intro!: response_shape_Cons response_shape_base)

lemma find_index_page_fields:
  "wfile (snd (find_index_page E p names h)) = wfile h"
  "headers_buffer (snd (find_index_page E p names h)) = headers_buffer h"
  "request_version (snd (find_index_page E p names h)) = request_version h"
  "if_modified_since (snd (find_index_page E p names h)) = if_modified_since h"
  "path (snd (find_index_page E p names h)) = path h"
  "command (snd (find_index_page E p names h)) = command h"
  by (induction names arbitrary: h; simp add: Let_def)+

lemma send_head_shape:
  assumes "request_version h \<noteq> ''HTTP/0.9''" "wfile h = []" "headers_buffer h = []"
  shows "response_shape E (wfile (snd (send_head E h)))"
proof (cases "os_isdir E (translate_path E (directory h) (path h))")
  case False
  then show ?thesis
    using assms by (simp add: send_head_def Let_def send_head_file_shape)
next
  case True
  obtain scheme netloc upath query fragment where
    parts: "urlsplit E (path h) = (scheme, netloc, upath, query, fragment)"
    by (metis prod_cases5)
  show ?thesis
  proof (cases "endswith upath ''/''")
    case False
    with True parts assms show ?thesis
      by (auto simp: send_head_def Let_def send_response_fields send_header_fields
            end_headers_fields CRLF_not_header_line
          intro!: response_shape_Cons response_shape_base)
  next
    case slash: True
    let ?h1 = "h\<lparr>fs_log := fs_log h @ [IsDir (translate_path E (directory h) (path h))]\<rparr>"
    obtain ix h2 where
      f: "find_index_page E (translate_path E (directory h) (path h)) index_pages ?h1 = (ix, h2)"
      by (cases "find_index_page E (translate_path E (directory h) (path h)) index_pages ?h1")
    have h2: "request_version h2 \<noteq> ''HTTP/0.9''" "wfile h2 = []" "headers_buffer h2 = []"
      using find_index_page_fields[of E "translate_path E (directory h) (path h)" index_pages ?h1]
        f assms by simp_all
    show ?thesis
      using True parts slash f h2
      by (cases ix) (simp_all add: send_head_def Let_def send_head_file_shape list_directory_shape)
  qed
qed


section \<open>The translated path lies in the directory\<close>







lemma rfind_absent: "c \<notin> set s \<Longrightarrow> rfind s c = - 1"
  by (simp add: rfind_def)

lemma length_takeWhile_less:
  "\<exists>x\<in>set xs. \<not> P x \<Longrightarrow> length (takeWhile P xs) < length xs"
  by (induction xs) auto

lemma rfind_present: "c \<in> set s \<Longrightarrow> 0 \<le> rfind s c \<and> rfind s c < int (length s)"
proof -
  assume c: "c \<in> set s"
  then have "\<exists>x\<in>set (rev s). \<not> x \<noteq> c" by simp
  then have "length (takeWhile (\<lambda>x. x \<noteq> c) (rev s)) < length (rev s)"
    by (rule length_takeWhile_less)
  with c show ?thesis by (simp add: rfind_def)
qed








section \<open>The file a response serves, and the calls to the file system\<close>

lemma str_nat_values:
  "str_nat 200 = ''200''" "str_nat 301 = ''301''" "str_nat 304 = ''304''"
  "str_nat 404 = ''404''" "str_nat 501 = ''501''" "str_nat 8090 = ''8090''"
  by (simp_all add: str_nat.simps digit_char_def)

lemma status_line_200_neq:
  "status_line 404 m \<noteq> status_line 200 ''OK''"
  "status_line 304 m \<noteq> status_line 200 ''OK''"
  "status_line 301 m \<noteq> status_line 200 ''OK''"
  "status_line 501 m \<noteq> status_line 200 ''OK''"
  by (simp_all add: status_line_def str_nat_values)

lemma header_named_header_line:
  "CHR '':'' \<notin> set k \<Longrightarrow> header_named n (header_line k v) = (lower k = lower n)"
proof -
  assume "CHR '':'' \<notin> set k"
  then have "\<forall>x\<in>set k. x \<noteq> CHR '':''" by auto
  then have "takeWhile (\<lambda>c. c \<noteq> CHR '':'') (k @ '': '' @ v @ CRLF) = k"
    by simp
  then show ?thesis by (simp add: header_named_def header_line_def)
qed

lemma lower_literals:
  "lower ''Server'' = ''server''"
  "lower ''Date'' = ''date''"
  "lower ''Content-type'' = ''content-type''"
  "lower ''Content-Type'' = ''content-type''"
  "lower ''Content-Length'' = ''content-length''"
  "lower ''Last-Modified'' = ''last-modified''"
  "lower ''Access-Control-Allow-Origin'' = ''access-control-allow-origin''"
  "lower ''Access-Control-Allow-Methods'' = ''access-control-allow-methods''"
  "lower ''Access-Control-Allow-Headers'' = ''access-control-allow-headers''"
  by (simp_all add: lower_def lower_char_def)

lemma header_named_values:
  "\<not> header_named ''Content-Type'' (header_line ''Server'' v)"
  "\<not> header_named ''Content-Type'' (header_line ''Date'' v)"
  "header_named ''Content-Type'' (header_line ''Content-type'' v)"
  "\<not> header_named ''Content-Type'' (header_line ''Content-Length'' v)"
  "\<not> header_named ''Content-Type'' (header_line ''Last-Modified'' v)"
  "\<not> header_named ''Content-Type'' (header_line ''Access-Control-Allow-Origin'' v)"
  "\<not> header_named ''Content-Type'' (header_line ''Access-Control-Allow-Methods'' v)"
  "\<not> header_named ''Content-Type'' (header_line ''Access-Control-Allow-Headers'' v)"
  by (simp_all add: header_named_header_line lower_literals)

lemma filter_content_type_cors: "filter (header_named ''Content-Type'') cors_headers = []"
  by (simp add: cors_headers_def header_named_values)

lemma send_head_file_log:
  "fs_log (snd (send_head_file E p h)) = fs_log h
   \<or> fs_log (snd (send_head_file E p h)) = fs_log h @ [Open p]"
  by (simp add: send_head_file_def Let_def send_error_fields end_headers_fields
        send_header_fields send_response_fields split: option.splits)

lemma send_head_file_200:
  assumes v: "request_version h \<noteq> ''HTTP/0.9''" and e: "wfile h = []" "headers_buffer h = []"
    and st: "hd (wfile (snd (send_head_file E p h))) = status_line 200 ''OK''"
  shows "filter (header_named ''Content-Type'')
           (response_headers (wfile (snd (send_head_file E p h)) @ b))
         = [header_line ''Content-type'' (guess_type E p)]"
proof -
  let ?h1 = "h\<lparr>fs_log := fs_log h @ [Open p]\<rparr>"
  have not_404: "hd (wfile (send_error E 404 m h')) \<noteq> status_line 200 ''OK''"
    if "request_version h' \<noteq> ''HTTP/0.9''" "wfile h' = []" "headers_buffer h' = []" for m h'
    using that by (simp add: send_error_wfile status_line_200_neq)
  show ?thesis
  proof (cases "endswith p ''/''")
    case True
    with st not_404[of h] v e show ?thesis
      by (simp add: send_head_file_def)
  next
    case False
    show ?thesis
    proof (cases "os_open E p")
      case None
      with False st not_404[of ?h1] v e show ?thesis
        by (simp add: send_head_file_def)
    next
      case (Some f)
      show ?thesis
      proof (cases "case if_modified_since h of None \<Rightarrow> False | Some ims \<Rightarrow> st_mtime f \<le> ims")
        case True
        with False Some st v e show ?thesis
          by (simp add: send_head_file_def end_headers_fields send_response_fields
                status_line_200_neq responses_def)
      next
        case fresh: False
        have "wfile (snd (send_head_file E p h)) =
                [status_line 200 ''OK'', header_line ''Server'' (version_string E),
                 header_line ''Date'' (date_time_string E None),
                 header_line ''Content-type'' (guess_type E p),
                 header_line ''Content-Length'' (str_nat (st_size f)),
                 header_line ''Last-Modified'' (date_time_string E (Some (st_mtime f)))]
                @ cors_headers @ [CRLF]"
          using False Some fresh v e
          by (simp add: send_head_file_def Let_def end_headers_fields send_header_fields
                send_response_fields responses_def)
        then show ?thesis
          by (simp add: response_headers_def response_head_def CRLF_not_header_line
                CRLF_not_status_line takeWhile_cors_headers header_named_values
                filter_content_type_cors)
      qed
    qed
  qed
qed

lemma list_directory_log:
  "Open q \<in> set (fs_log (snd (list_directory E p h))) \<longleftrightarrow> Open q \<in> set (fs_log h)"
  "ListDir q \<in> set (fs_log (snd (list_directory E p h))) \<longleftrightarrow> ListDir q \<in> set (fs_log h) \<or> q = p"
  by (auto simp: list_directory_def Let_def send_error_fields end_headers_fields
        send_header_fields send_response_fields split: option.splits)

lemma find_index_page_log:
  "Open q \<in> set (fs_log (snd (find_index_page E p names h))) \<longleftrightarrow> Open q \<in> set (fs_log h)"
  "ListDir q \<in> set (fs_log (snd (find_index_page E p names h))) \<longleftrightarrow> ListDir q \<in> set (fs_log h)"
  by (induction names arbitrary: h; simp add: Let_def)+

lemma find_index_page_Some:
  "find_index_page E p names h = (Some ix, h') \<Longrightarrow> \<exists>name\<in>set names. ix = os_path_join p name"
  by (induction names arbitrary: h) (auto simp: Let_def split: if_splits)


lemma send_head_cases:
  obtains
    (plain) "\<not> os_isdir E (translate_path E (directory h) (path h))"
      "send_head E h = send_head_file E (translate_path E (directory h) (path h))
         (h\<lparr>fs_log := fs_log h @ [IsDir (translate_path E (directory h) (path h))]\<rparr>)"
  | (redirect) new_url where
      "send_head E h =
         (None, end_headers (send_header ''Content-Length'' ''0'' (send_header ''Location'' new_url
            (send_response E 301 None
               (h\<lparr>fs_log := fs_log h @ [IsDir (translate_path E (directory h) (path h))]\<rparr>)))))"
  | (index) name h2 where
      "name \<in> set index_pages"
      "find_index_page E (translate_path E (directory h) (path h)) index_pages
         (h\<lparr>fs_log := fs_log h @ [IsDir (translate_path E (directory h) (path h))]\<rparr>)
       = (Some (os_path_join (translate_path E (directory h) (path h)) name), h2)"
      "send_head E h =
         send_head_file E (os_path_join (translate_path E (directory h) (path h)) name) h2"
  | (listing) h2 where
      "find_index_page E (translate_path E (directory h) (path h)) index_pages
         (h\<lparr>fs_log := fs_log h @ [IsDir (translate_path E (directory h) (path h))]\<rparr>)
       = (None, h2)"
      "send_head E h = list_directory E (translate_path E (directory h) (path h)) h2"
proof (cases "os_isdir E (translate_path E (directory h) (path h))")
  case False
  then show thesis
    by (intro plain) (simp_all add: send_head_def Let_def)
next
  case True
  let ?p = "translate_path E (directory h) (path h)"
  let ?h1 = "h\<lparr>fs_log := fs_log h @ [IsDir ?p]\<rparr>"
  obtain scheme netloc upath query fragment where
    parts: "urlsplit E (path h) = (scheme, netloc, upath, query, fragment)"
    by (metis prod_cases5)
  show thesis
  proof (cases "endswith upath ''/''")
    case False
    with True parts show thesis
      by (intro redirect) (simp add: send_head_def Let_def)
  next
    case slash: True
    obtain ix h2 where f: "find_index_page E ?p index_pages ?h1 = (ix, h2)"
      by (cases "find_index_page E ?p index_pages ?h1")
    show thesis
    proof (cases ix)
      case None
      with True parts slash f show thesis
        by (intro listing[of h2]) (simp_all add: send_head_def Let_def)
    next
      case (Some q)
      with f obtain name where n: "name \<in> set index_pages" "q = os_path_join ?p name"
        using find_index_page_Some by blast
      with True parts slash f Some show thesis
        by (intro index[of name h2]) (simp_all add: send_head_def Let_def)
    qed
  qed
qed


lemma list_directory_no_Open:
  "(\<forall>q. Open q \<notin> set (fs_log h)) \<Longrightarrow> Open q \<notin> set (fs_log (snd (list_directory E p h)))"
  by (simp add: list_directory_log)

lemma send_head_file_Open:
  assumes "\<forall>q. Open q \<notin> set (fs_log h)" "Open q \<in> set (fs_log (snd (send_head_file E p h)))"
  shows "q = p"
  using assms send_head_file_log[of E p h] by auto

lemma send_head_200:
  assumes v: "request_version h \<noteq> ''HTTP/0.9''" and e: "wfile h = []" "headers_buffer h = []"
    and l: "fs_log h = []"
    and st: "hd (wfile (snd (send_head E h))) = status_line 200 ''OK''"
    and op: "Open p \<in> set (fs_log (snd (send_head E h)))"
  shows "filter (header_named ''Content-Type'') (response_headers (wfile (snd (send_head E h)) @ b))
         = [header_line ''Content-type'' (guess_type E p)]"
proof (cases rule: send_head_cases[of E h])
  case plain
  let ?p = "translate_path E (directory h) (path h)"
  let ?h1 = "h\<lparr>fs_log := fs_log h @ [IsDir ?p]\<rparr>"
  have "p = ?p"
    using op l plain(2) by (intro send_head_file_Open[of ?h1 p E ?p]) auto
  then show ?thesis
    using send_head_file_200[of ?h1 E ?p b] v e st plain(2) by simp
next
  case (redirect new_url)
  with op l show ?thesis
    by (simp add: end_headers_fields send_header_fields send_response_fields)
next
  case (index name h2)
  let ?p = "translate_path E (directory h) (path h)"
  let ?h1 = "h\<lparr>fs_log := fs_log h @ [IsDir ?p]\<rparr>"
  from index(2) l have no: "\<forall>q'. Open q' \<notin> set (fs_log h2)"
    using find_index_page_log(1)[of _ E ?p index_pages ?h1] by auto
  have h2: "request_version h2 \<noteq> ''HTTP/0.9''" "wfile h2 = []" "headers_buffer h2 = []"
    using find_index_page_fields[of E ?p index_pages ?h1] index(2) v e by simp_all
  have "p = os_path_join ?p name"
    using op no index(3) by (intro send_head_file_Open[of h2 p E]) auto
  then show ?thesis
    using send_head_file_200[of h2 E "os_path_join ?p name" b] h2 st index(3) by simp
next
  case (listing h2)
  let ?p = "translate_path E (directory h) (path h)"
  let ?h1 = "h\<lparr>fs_log := fs_log h @ [IsDir ?p]\<rparr>"
  from listing(1) l have no: "\<forall>q'. Open q' \<notin> set (fs_log h2)"
    using find_index_page_log(1)[of _ E ?p index_pages ?h1] by auto
  with op listing(2) list_directory_no_Open[of h2 p E ?p] show ?thesis by simp
qed

lemma handler_for_fields:
  "wfile (handler_for dir r) = []"
  "headers_buffer (handler_for dir r) = []"
  "fs_log (handler_for dir r) = []"
  "request_version (handler_for dir r) = r_version r"
  "command (handler_for dir r) = r_command r"
  "directory (handler_for dir r) = dir"
  by (simp_all add: handler_for_def)

lemma do_OPTIONS_log: "fs_log (do_OPTIONS E h) = fs_log h"
  by (simp add: do_OPTIONS_def end_headers_fields send_response_fields)

lemma handle_log:
  "fs_log (handle E dir r) =
     (if r_command r = ''GET'' \<or> r_command r = ''HEAD''
      then fs_log (snd (send_head E (handler_for dir r))) else [])"
  by (auto simp: handle_def handle_one_request_def do_GET_def do_HEAD_def do_OPTIONS_log
        send_error_fields handler_for_fields split: prod.splits option.splits)

lemma respond_GET_HEAD:
  assumes "r_command r = ''GET'' \<or> r_command r = ''HEAD''"
  shows "\<exists>b. respond E dir r = wfile (snd (send_head E (handler_for dir r))) @ b"
  using assms
  by (auto simp: respond_def handle_def handle_one_request_def do_GET_def do_HEAD_def
        handler_for_fields split: prod.splits option.splits)

lemma handle_200_file:
  assumes v: "r_version r \<noteq> ''HTTP/0.9''"
    and st: "hd (respond E dir r) = status_line 200 ''OK''"
    and op: "Open p \<in> set (fs_log (handle E dir r))"
  shows "filter (header_named ''Content-Type'') (response_headers (respond E dir r))
         = [header_line ''Content-type'' (guess_type E p)]"
proof -
  let ?h = "handler_for dir r"
  from op have c: "r_command r = ''GET'' \<or> r_command r = ''HEAD''"
    and op': "Open p \<in> set (fs_log (snd (send_head E ?h)))"
    by (auto simp: handle_log split: if_splits)
  from c obtain b where b: "respond E dir r = wfile (snd (send_head E ?h)) @ b"
    using respond_GET_HEAD by blast
  have "response_shape E (wfile (snd (send_head E ?h)))"
    using v by (intro send_head_shape) (simp_all add: handler_for_fields)
  then have "wfile (snd (send_head E ?h)) \<noteq> []"
    by (auto simp: response_shape_def)
  with st b have "hd (wfile (snd (send_head E ?h))) = status_line 200 ''OK''"
    by simp
  then show ?thesis
    using send_head_200[of ?h E p b] v op' b by (simp add: handler_for_fields)
qed

section \<open>The answers to the usual requests, written out\<close>


lemma send_head_plain_file:
  assumes "translate_path E (directory h) (path h) = p"
    and "\<not> os_isdir E p" "\<not> endswith p ''/''" "os_open E p = Some f"
    and "if_modified_since h = None"
    and "wfile h = []" "headers_buffer h = []" "fs_log h = []"
  shows "fst (send_head E h) = Some (content f)"
    and "fs_log (snd (send_head E h)) = [IsDir p, Open p]"
    and "wfile (snd (send_head E h)) =
           (if request_version h \<noteq> ''HTTP/0.9''
            then [status_line 200 ''OK'', header_line ''Server'' (version_string E),
                  header_line ''Date'' (date_time_string E None),
                  header_line ''Content-type'' (guess_type E p),
                  header_line ''Content-Length'' (str_nat (st_size f)),
                  header_line ''Last-Modified'' (date_time_string E (Some (st_mtime f)))]
                 @ cors_headers @ [CRLF]
            else [])"
  using assms
  by (simp_all add: send_head_def send_head_file_def Let_def end_headers_fields
        send_header_fields send_response_fields responses_def)

lemma handle_GET_plain_file:
  assumes "r_command r = ''GET''"
    and "translate_path E dir (path (handler_for dir r)) = p"
    and "\<not> os_isdir E p" "\<not> endswith p ''/''" "os_open E p = Some f"
    and "r_if_modified_since r = None"
  shows "respond E dir r =
           (if r_version r \<noteq> ''HTTP/0.9''
            then [status_line 200 ''OK'', header_line ''Server'' (version_string E),
                  header_line ''Date'' (date_time_string E None),
                  header_line ''Content-type'' (guess_type E p),
                  header_line ''Content-Length'' (str_nat (st_size f)),
                  header_line ''Last-Modified'' (date_time_string E (Some (st_mtime f)))]
                 @ cors_headers @ [CRLF, content f]
            else [content f])"
    and "fs_log (handle E dir r) = [IsDir p, Open p]"
proof -
  let ?h = "handler_for dir r"
  have h: "translate_path E (directory ?h) (path ?h) = p" "if_modified_since ?h = None"
    "wfile ?h = []" "headers_buffer ?h = []" "fs_log ?h = []"
    using assms(2,6) by (simp_all add: handler_for_def)
  note sh = send_head_plain_file[OF h(1) assms(3,4,5) h(2,3,4,5)]
  obtain x h' where s: "send_head E ?h = (x, h')" by (cases "send_head E ?h")
  with sh have x: "x = Some (content f)" and l: "fs_log h' = [IsDir p, Open p]"
    and w: "wfile h' =
           (if request_version ?h \<noteq> ''HTTP/0.9''
            then [status_line 200 ''OK'', header_line ''Server'' (version_string E),
                  header_line ''Date'' (date_time_string E None),
                  header_line ''Content-type'' (guess_type E p),
                  header_line ''Content-Length'' (str_nat (st_size f)),
                  header_line ''Last-Modified'' (date_time_string E (Some (st_mtime f)))]
                 @ cors_headers @ [CRLF]
            else [])"
    by simp_all
  show "respond E dir r =
           (if r_version r \<noteq> ''HTTP/0.9''
            then [status_line 200 ''OK'', header_line ''Server'' (version_string E),
                  header_line ''Date'' (date_time_string E None),
                  header_line ''Content-type'' (guess_type E p),
                  header_line ''Content-Length'' (str_nat (st_size f)),
                  header_line ''Last-Modified'' (date_time_string E (Some (st_mtime f)))]
                 @ cors_headers @ [CRLF, content f]
            else [content f])"
    using assms(1) s x w
    by (simp add: respond_def handle_def handle_one_request_def do_GET_def handler_for_fields)
  show "fs_log (handle E dir r) = [IsDir p, Open p]"
    using assms(1) s x l
    by (simp add: handle_def handle_one_request_def do_GET_def handler_for_fields)
qed


section \<open>The example installation, evaluated\<close>

lemma example_paths:
  "path (handler_for d (req c ''/web/index.html'' v)) = ''/web/index.html''"
  "path (handler_for d (req c ''/web/app.js'' v)) = ''/web/app.js''"
  "path (handler_for d (req c ''/web/.html'' v)) = ''/web/.html''"
  "path (handler_for d (req c ''/web/notes.txt'' v)) = ''/web/notes.txt''"
  "path (handler_for d (req c ''/web/LOGO.PNG'' v)) = ''/web/LOGO.PNG''"
  "path (handler_for d (req c ''/web/data.bin'' v)) = ''/web/data.bin''"
  "path (handler_for d (req c ''/web/Makefile'' v)) = ''/web/Makefile''"
  "path (handler_for d (req c ''/web/missing.xyz'' v)) = ''/web/missing.xyz''"
  "path (handler_for d (req c ''/../../etc/passwd'' v)) = ''/../../etc/passwd''"
  "path (handler_for d (req c ''/web'' v)) = ''/web''"
  by (simp_all add: handler_for_def req_def startswith_def)

lemma req_fields:
  "r_command (req c p v) = c" "r_path (req c p v) = p" "r_version (req c p v) = v"
  "r_if_modified_since (req c p v) = None"
  by (simp_all add: req_def)

lemma example_translate_path:
  "translate_path example_env ''/srv/app'' ''/web/index.html'' = ''/srv/app/web/index.html''"
  "translate_path example_env ''/srv/app'' ''/web/app.js'' = ''/srv/app/web/app.js''"
  "translate_path example_env ''/srv/app'' ''/web/.html'' = ''/srv/app/web/.html''"
  "translate_path example_env ''/srv/app'' ''/web/notes.txt'' = ''/srv/app/web/notes.txt''"
  "translate_path example_env ''/srv/app'' ''/web/LOGO.PNG'' = ''/srv/app/web/LOGO.PNG''"
  "translate_path example_env ''/srv/app'' ''/web/data.bin'' = ''/srv/app/web/data.bin''"
  "translate_path example_env ''/srv/app'' ''/web/Makefile'' = ''/srv/app/web/Makefile''"
  "translate_path example_env ''/srv/app'' ''/web/missing.xyz'' = ''/srv/app/web/missing.xyz''"
  "translate_path example_env ''/srv/app'' ''/../../etc/passwd'' = ''/srv/app/etc/passwd''"
  "translate_path example_env ''/srv/app'' ''/web'' = ''/srv/app/web''"
  by code_simp+

lemma example_os_isdir:
  "\<not> os_isdir example_env ''/srv/app/web/index.html''"
  "\<not> os_isdir example_env ''/srv/app/web/app.js''"
  "\<not> os_isdir example_env ''/srv/app/web/.html''"
  "\<not> os_isdir example_env ''/srv/app/web/notes.txt''"
  "\<not> os_isdir example_env ''/srv/app/web/LOGO.PNG''"
  "\<not> os_isdir example_env ''/srv/app/web/data.bin''"
  "\<not> os_isdir example_env ''/srv/app/web/Makefile''"
  "\<not> os_isdir example_env ''/srv/app/web/missing.xyz''"
  "\<not> os_isdir example_env ''/srv/app/etc/passwd''"
  "os_isdir example_env ''/srv/app/web''"
  by (simp_all add: example_env_def)

lemma example_os_open:
  "os_open example_env ''/srv/app/web/index.html''
     = Some \<lparr>content = ''<html></html>'', st_size = 13, st_mtime = 1700000000\<rparr>"
  "os_open example_env ''/srv/app/web/app.js''
     = Some \<lparr>content = ''main()'', st_size = 6, st_mtime = 1700000000\<rparr>"
  "os_open example_env ''/srv/app/web/.html''
     = Some \<lparr>content = ''x'', st_size = 1, st_mtime = 1700000000\<rparr>"
  "os_open example_env ''/srv/app/web/notes.txt''
     = Some \<lparr>content = ''hello'', st_size = 5, st_mtime = 1700000000\<rparr>"
  "os_open example_env ''/srv/app/web/LOGO.PNG''
     = Some \<lparr>content = ''PNG'', st_size = 3, st_mtime = 1700000000\<rparr>"
  "os_open example_env ''/srv/app/web/data.bin''
     = Some \<lparr>content = ''0'', st_size = 1, st_mtime = 1700000000\<rparr>"
  "os_open example_env ''/srv/app/web/Makefile''
     = Some \<lparr>content = ''all:'', st_size = 4, st_mtime = 1700000000\<rparr>"
  "os_open example_env ''/srv/app/web/missing.xyz'' = None"
  "os_open example_env ''/srv/app/etc/passwd'' = None"
  by (simp_all add: example_env_def example_files_def)

lemma example_no_slash:
  "\<not> endswith ''/srv/app/web/index.html'' ''/''"
  "\<not> endswith ''/srv/app/web/app.js'' ''/''"
  "\<not> endswith ''/srv/app/web/.html'' ''/''"
  "\<not> endswith ''/srv/app/web/notes.txt'' ''/''"
  "\<not> endswith ''/srv/app/web/LOGO.PNG'' ''/''"
  "\<not> endswith ''/srv/app/web/data.bin'' ''/''"
  "\<not> endswith ''/srv/app/web/Makefile'' ''/''"
  by (simp_all add: endswith_def)

lemma example_splitext:
  "splitext ''/srv/app/web/index.html'' = (''/srv/app/web/index'', ''.html'')"
  "splitext ''/srv/app/web/app.js'' = (''/srv/app/web/app'', ''.js'')"
  "splitext ''/srv/app/web/.html'' = (''/srv/app/web/.html'', '''')"
  "splitext ''/srv/app/web/notes.txt'' = (''/srv/app/web/notes'', ''.txt'')"
  "splitext ''/srv/app/web/LOGO.PNG'' = (''/srv/app/web/LOGO'', ''.PNG'')"
  "splitext ''/srv/app/web/data.bin'' = (''/srv/app/web/data'', ''.bin'')"
  "splitext ''/srv/app/web/Makefile'' = (''/srv/app/web/Makefile'', '''')"
  by code_simp+

lemma example_guess_type:
  "guess_type example_env ''/srv/app/web/index.html'' = ''text/html''"
  "guess_type example_env ''/srv/app/web/.html'' = ''application/octet-stream''"
  "guess_type example_env ''/srv/app/web/notes.txt'' = ''text/plain''"
  "guess_type example_env ''/srv/app/web/LOGO.PNG'' = ''image/png''"
  "guess_type example_env ''/srv/app/web/data.bin'' = ''application/octet-stream''"
  "guess_type example_env ''/srv/app/web/Makefile'' = ''application/octet-stream''"
  by code_simp+



lemma example_DIRECTORY: "DIRECTORY (example_world c b ins) = ''/srv/app''"
proof -
  have "os_path_dirname (os_path_dirname ''/srv/app/web/server.py'') = ''/srv/app''"
    by code_simp
  then show ?thesis by (simp add: DIRECTORY_def example_world_def)
qed

section \<open>The type guessed for a path\<close>

lemma extensions_map_keys_lower:
  "map_of extensions_map ext = Some t \<Longrightarrow> lower ext = ext"
  by (auto simp: extensions_map_def lower_def lower_char_def split: if_splits)

lemma guess_type_in_table:
  assumes "(ext, mime) \<in> set extensions_map" "snd (splitext p) = ext"
  shows "guess_type E p = mime"
proof -
  have "distinct (map fst extensions_map)"
    by (simp add: extensions_map_def)
  then have "map_of extensions_map ext = Some mime"
    using assms(1) by (rule map_of_is_SomeI)
  then show ?thesis
    using assms(2) by (simp add: guess_type_def)
qed

lemma guess_type_not_in_table:
  assumes "lower (snd (splitext p)) \<notin> fst ` set extensions_map"
  shows "guess_type E p =
           (case mimetypes_guess_type E p of
              Some guess \<Rightarrow> if guess \<noteq> '''' then guess else ''application/octet-stream''
            | None \<Rightarrow> ''application/octet-stream'')"
proof -
  from assms have l: "map_of extensions_map (lower (snd (splitext p))) = None"
    by (simp add: map_of_eq_None_iff)
  have "map_of extensions_map (snd (splitext p)) = None"
  proof (cases "map_of extensions_map (snd (splitext p))")
    case None
    then show ?thesis .
  next
    case (Some t)
    then have "lower (snd (splitext p)) = snd (splitext p)"
      by (rule extensions_map_keys_lower)
    with l Some show ?thesis by simp
  qed
  with l show ?thesis
    by (simp add: guess_type_def Let_def)
qed

section \<open>The run of the server\<close>


lemma run_server_started:
  assumes "os_chdir W (DIRECTORY W)" "server_bind W ('''', PORT)"
  shows "run_server W =
           (case serve_forever (lib W) (DIRECTORY W) (inputs W) of
              (evs, None) \<Rightarrow>
                ([Chdir (DIRECTORY W), Bind ('''', 8090),
                  Print (banner ''http://localhost:8090/web/''),
                  WebbrowserOpen ''http://localhost:8090/web/'', ServeForever] @ evs, Serving)
            | (evs, Some e) \<Rightarrow>
                if e = KeyboardInterrupt
                then ([Chdir (DIRECTORY W), Bind ('''', 8090),
                       Print (banner ''http://localhost:8090/web/''),
                       WebbrowserOpen ''http://localhost:8090/web/'', ServeForever]
                      @ evs @ [Print farewell, ServerClose], Returned)
                else ([Chdir (DIRECTORY W), Bind ('''', 8090),
                       Print (banner ''http://localhost:8090/web/''),
                       WebbrowserOpen ''http://localhost:8090/web/'', ServeForever]
                      @ evs @ [ServerClose], Raised e))"
  using assms
  by (simp add: run_server_def Let_def PORT_def str_nat_values split: prod.split option.split)

lemma serve_forever_events:
  "\<forall>ev\<in>set (fst (serve_forever E dir ins)). \<exists>w. ev = Response w"
  by (induction E dir ins rule: serve_forever.induct) (auto simp: split_beta)

lemma run_server_events:
  assumes "os_chdir W (DIRECTORY W)" "server_bind W ('''', PORT)"
  obtains tail where
    "fst (run_server W) =
       [Chdir (DIRECTORY W), Bind ('''', 8090), Print (banner ''http://localhost:8090/web/''),
        WebbrowserOpen ''http://localhost:8090/web/'', ServeForever] @ tail"
    "\<forall>ev\<in>set tail. (\<exists>w. ev = Response w) \<or> ev = Print farewell \<or> ev = ServerClose"
proof -
  obtain evs e where s: "serve_forever (lib W) (DIRECTORY W) (inputs W) = (evs, e)"
    by (cases "serve_forever (lib W) (DIRECTORY W) (inputs W)")
  have resp: "\<forall>ev\<in>set evs. \<exists>w. ev = Response w"
    using serve_forever_events[of "lib W" "DIRECTORY W" "inputs W"] s by simp
  define tail where "tail =
    (case e of None \<Rightarrow> evs
     | Some x \<Rightarrow> if x = KeyboardInterrupt then evs @ [Print farewell, ServerClose]
                 else evs @ [ServerClose])"
  have "fst (run_server W) =
          [Chdir (DIRECTORY W), Bind ('''', 8090), Print (banner ''http://localhost:8090/web/''),
           WebbrowserOpen ''http://localhost:8090/web/'', ServeForever] @ tail"
    using assms s by (simp add: run_server_started tail_def split: option.splits)
  moreover have "\<forall>ev\<in>set tail. (\<exists>w. ev = Response w) \<or> ev = Print farewell \<or> ev = ServerClose"
    using resp by (auto simp: tail_def split: option.splits if_splits)
  ultimately show thesis by (rule that)
qed

section \<open>The extension of a file name\<close>

lemma rfind_last:
  assumes "c \<notin> set b"
  shows "rfind (a @ c # b) c = int (length a)"
proof -
  have "takeWhile (\<lambda>x. x \<noteq> c) (xs @ c # ys) = xs" if "c \<notin> set xs" for xs ys
    using that by (induction xs) auto
  from this[of "rev b" "rev a"] assms
  have "takeWhile (\<lambda>x. x \<noteq> c) (rev b @ c # rev a) = rev b"
    by simp
  then show ?thesis
    by (simp add: rfind_def)
qed

lemma rfind_append_absent:
  assumes "c \<notin> set b"
  shows "rfind (a @ b) c = rfind a c"
proof (cases "c \<in> set a")
  case False
  with assms show ?thesis by (simp add: rfind_def)
next
  case True
  then obtain a1 a2 where a: "a = a1 @ c # a2" "c \<notin> set a2"
    by (meson split_list_last)
  then have "rfind (a1 @ c # (a2 @ b)) c = int (length a1)"
    using assms by (intro rfind_last) simp
  moreover have "rfind (a1 @ c # a2) c = int (length a1)"
    using a(2) by (rule rfind_last)
  ultimately show ?thesis by (simp add: a(1))
qed

lemma splitext_loop_found:
  assumes "i \<le> j" "j < n" "n \<le> length p" "p ! j \<noteq> CHR ''.''"
  shows "splitext_loop p i n = (take n p, drop n p)"
  using assms
proof (induction p i n rule: splitext_loop.induct)
  case (1 p i n)
  from "1.prems" have lt: "i < n" and len: "i < length p" by simp_all
  from len have t: "take 1 (drop i p) = [p ! i]"
    by (simp add: take_Suc_conv_app_nth)
  show ?case
  proof (cases "p ! i = CHR ''.''")
    case False
    with lt t show ?thesis
      by (simp add: splitext_loop.simps[of p i n])
  next
    case True
    with "1.prems" have "i \<noteq> j" by auto
    with "1.prems" have "i + 1 \<le> j" by simp
    with "1.IH"[OF lt] True t "1.prems" have "splitext_loop p (i + 1) n = (take n p, drop n p)"
      by simp
    with lt t True show ?thesis
      by (simp add: splitext_loop.simps[of p i n])
  qed
qed

text \<open>
  A name with a stem that is not made of dots only, followed by a dot and an extension
  without dot: \<^verbatim>\<open>splitext\<close> splits at that dot.
\<close>

lemma splitext_stem_ext:
  assumes "CHR ''/'' \<notin> set stem" and "\<exists>c\<in>set stem. c \<noteq> CHR ''.''"
    and "CHR ''.'' \<notin> set e" and "CHR ''/'' \<notin> set e"
  shows "splitext (d @ ''/'' @ stem @ ''.'' @ e) = (d @ ''/'' @ stem, ''.'' @ e)"
proof -
  let ?p = "d @ ''/'' @ stem @ ''.'' @ e"
  let ?n = "length d + 1 + length stem"
  have sep: "rfind ?p CHR ''/'' = int (length d)"
    using assms(1,4) rfind_last[of "CHR ''/''" "stem @ ''.'' @ e" d] by simp
  have dot: "rfind ?p CHR ''.'' = int ?n"
    using assms(3) rfind_last[of "CHR ''.''" e "d @ ''/'' @ stem"] by simp
  from assms(2) obtain k where k: "k < length stem" "stem ! k \<noteq> CHR ''.''"
    by (auto simp: in_set_conv_nth)
  have nth: "?p ! (length d + 1 + k) = stem ! k"
    using k(1) by (simp add: nth_append)
  have "splitext_loop ?p (length d + 1) ?n = (take ?n ?p, drop ?n ?p)"
    using k nth by (intro splitext_loop_found[where j = "length d + 1 + k"]) simp_all
  moreover have "take ?n ?p = d @ ''/'' @ stem" "drop ?n ?p = ''.'' @ e"
    by simp_all
  ultimately show ?thesis
    using sep dot by (simp add: splitext_def Let_def nat_add_distrib)
qed

text \<open>A name without dot has no extension, whatever the directory is called.\<close>

lemma splitext_no_dot:
  assumes "CHR ''/'' \<notin> set name" and "CHR ''.'' \<notin> set name"
  shows "splitext (d @ ''/'' @ name) = (d @ ''/'' @ name, '''')"
proof -
  let ?p = "d @ ''/'' @ name"
  have sep: "rfind ?p CHR ''/'' = int (length d)"
    using assms(1) rfind_last[of "CHR ''/''" name d] by simp
  have "rfind ?p CHR ''.'' = rfind d CHR ''.''"
    using assms(2) rfind_append_absent[of "CHR ''.''" "''/'' @ name" d] by simp
  moreover have "rfind d CHR ''.'' < int (length d)"
    using rfind_present[of "CHR ''.''" d] rfind_absent[of "CHR ''.''" d]
    by (cases "CHR ''.'' \<in> set d") auto
  ultimately show ?thesis
    using sep by (simp add: splitext_def Let_def)
qed

section \<open>The bytes that follow the head\<close>




lemma respond_GET:
  assumes "r_command r = ''GET''"
  shows "respond E dir r =
           wfile (snd (send_head E (handler_for dir r)))
           @ (case fst (send_head E (handler_for dir r)) of Some b \<Rightarrow> [b] | None \<Rightarrow> [])"
  using assms
  by (simp add: respond_def handle_def handle_one_request_def do_GET_def handler_for_fields
        split: prod.splits option.splits)

section \<open>The claims\<close>

subsection \<open>C2: the three headers on every response\<close>




subsection \<open>C5: where the three headers stand\<close>




subsection \<open>C3: the answer to OPTIONS\<close>




subsection \<open>C4: no file from outside the directory\<close>



subsection \<open>C7: a missing file\<close>




subsection \<open>C1: the types of the table\<close>

text \<open>
  C1, as amended. For every row of the extension table, with extension \<open>ext\<close> and type
  \<open>mime\<close>: a response with status 200 to a request whose version is not \<^verbatim>\<open>HTTP/0.9\<close>,
  for which the handler has opened the file \<open>p\<close>, where \<open>ext\<close> is the extension of \<open>p\<close>
  as \<^verbatim>\<open>posixpath.splitext\<close> gives it (the last component of the path from its last
  dot on, when a character other than a dot stands before that dot in the component;
  empty otherwise), has exactly one header named \<^verbatim>\<open>Content-Type\<close>, and it is
  \<^verbatim>\<open>Content-type:\<close> \<open>mime\<close>.
\<close>

theorem content_type_of_table_extension:
  assumes "(ext, mime) \<in> set extensions_map"
    and "r_version r \<noteq> ''HTTP/0.9''"
    and "hd (respond E dir r) = status_line 200 ''OK''"
    and "Open p \<in> set (fs_log (handle E dir r))"
    and "snd (splitext p) = ext"
  shows "filter (header_named ''Content-Type'') (response_headers (respond E dir r))
         = [header_line ''Content-type'' mime]"
  using handle_200_file[OF assms(2,3,4)] guess_type_in_table[OF assms(1,5)] by simp

theorem content_type_of_table_extension_witness:
  "(''.html'', ''text/html'') \<in> set extensions_map
   \<and> r_version (req ''GET'' ''/web/index.html'' ''HTTP/1.1'') \<noteq> ''HTTP/0.9''
   \<and> hd (respond example_env ''/srv/app'' (req ''GET'' ''/web/index.html'' ''HTTP/1.1''))
       = status_line 200 ''OK''
   \<and> Open ''/srv/app/web/index.html''
       \<in> set (fs_log (handle example_env ''/srv/app'' (req ''GET'' ''/web/index.html'' ''HTTP/1.1'')))
   \<and> snd (splitext ''/srv/app/web/index.html'') = ''.html''
   \<and> filter (header_named ''Content-Type'')
        (response_headers (respond example_env ''/srv/app'' (req ''GET'' ''/web/index.html'' ''HTTP/1.1'')))
       = [header_line ''Content-type'' ''text/html'']"
proof -
  let ?r = "req ''GET'' ''/web/index.html'' ''HTTP/1.1''"
  note ev = handle_GET_plain_file[where p = "''/srv/app/web/index.html''" and E = example_env
      and dir = "''/srv/app''" and r = ?r, unfolded req_fields example_paths,
      OF refl example_translate_path(1) example_os_isdir(1) example_no_slash(1) example_os_open(1) refl]
  have t: "(''.html'', ''text/html'') \<in> set extensions_map"
    by (simp add: extensions_map_def)
  have v: "r_version ?r \<noteq> ''HTTP/0.9''"
    by (simp add: req_fields)
  have s: "hd (respond example_env ''/srv/app'' ?r) = status_line 200 ''OK''"
    by (simp add: ev(1))
  have l: "Open ''/srv/app/web/index.html'' \<in> set (fs_log (handle example_env ''/srv/app'' ?r))"
    by (simp add: ev(2))
  have x: "snd (splitext ''/srv/app/web/index.html'') = ''.html''"
    by (simp add: example_splitext)
  from content_type_of_table_extension[OF t v s l x] t v s l x
  show ?thesis by blast
qed

text \<open>
  The claim as stated fails for a file whose whole name is an extension of the table:
  \<^verbatim>\<open>/web/.html\<close> ends in \<^verbatim>\<open>.html\<close> and is served as \<^verbatim>\<open>application/octet-stream\<close>. It also
  fails for the request line \<^verbatim>\<open>GET /web/app.js\<close>, whose version is \<^verbatim>\<open>HTTP/0.9\<close>: the
  answer is the bytes of the file, with no \<^verbatim>\<open>Content-Type\<close> header.
\<close>

theorem content_type_counterexample:
  "filter (header_named ''Content-Type'')
     (response_headers (respond example_env ''/srv/app'' (req ''GET'' ''/web/.html'' ''HTTP/1.1'')))
     = [header_line ''Content-type'' ''application/octet-stream'']
   \<and> header_line ''Content-type'' ''application/octet-stream'' \<noteq> header_line ''Content-type'' ''text/html''
   \<and> respond example_env ''/srv/app'' (req ''GET'' ''/web/app.js'' ''HTTP/0.9'') = [''main()'']"
proof -
  let ?r = "req ''GET'' ''/web/.html'' ''HTTP/1.1''"
  note ev = handle_GET_plain_file[where p = "''/srv/app/web/.html''" and E = example_env
      and dir = "''/srv/app''" and r = ?r, unfolded req_fields example_paths,
      OF refl example_translate_path(3) example_os_isdir(3) example_no_slash(3) example_os_open(3) refl]
  have a: "filter (header_named ''Content-Type'') (response_headers (respond example_env ''/srv/app'' ?r))
     = [header_line ''Content-type'' ''application/octet-stream'']"
    by (simp add: ev(1) example_guess_type response_headers_def response_head_def
          CRLF_not_header_line CRLF_not_status_line takeWhile_cors_headers header_named_values
          filter_content_type_cors)
  have b: "header_line ''Content-type'' ''application/octet-stream'' \<noteq> header_line ''Content-type'' ''text/html''"
    by (simp add: header_line_def)
  have c: "respond example_env ''/srv/app'' (req ''GET'' ''/web/app.js'' ''HTTP/0.9'') = [''main()'']"
    by (simp add: handle_GET_plain_file(1)[where p = "''/srv/app/web/app.js''"] req_fields
          example_paths example_translate_path example_os_isdir example_os_open example_no_slash)
  from a b c show ?thesis by blast
qed

subsection \<open>C6: the type of a file whose extension is not in the table\<close>

text \<open>
  C6, as amended. For every response with status 200 to a request whose version is not
  \<^verbatim>\<open>HTTP/0.9\<close>, for which the handler has opened the file \<open>p\<close>, with the extension of \<open>p\<close>
  as \<^verbatim>\<open>posixpath.splitext\<close> gives it: when the extension is empty, the response has
  exactly one header named \<^verbatim>\<open>Content-Type\<close>, and it is
  \<^verbatim>\<open>Content-type: application/octet-stream\<close>; when the extension, put in lower case, is
  not a key of the table, the one header named \<^verbatim>\<open>Content-Type\<close> carries the type that
  \<^verbatim>\<open>mimetypes.guess_type\<close> gives for the path, and \<^verbatim>\<open>application/octet-stream\<close> when it
  gives none.
\<close>

theorem content_type_of_other_extension:
  assumes "r_version r \<noteq> ''HTTP/0.9''"
    and "hd (respond E dir r) = status_line 200 ''OK''"
    and "Open p \<in> set (fs_log (handle E dir r))"
  shows "(snd (splitext p) = '''' \<longrightarrow>
            filter (header_named ''Content-Type'') (response_headers (respond E dir r))
            = [header_line ''Content-type'' ''application/octet-stream''])
         \<and> (lower (snd (splitext p)) \<notin> fst ` set extensions_map \<longrightarrow>
            filter (header_named ''Content-Type'') (response_headers (respond E dir r))
            = [header_line ''Content-type''
                 (case mimetypes_guess_type E p of
                    Some guess \<Rightarrow> if guess \<noteq> '''' then guess else ''application/octet-stream''
                  | None \<Rightarrow> ''application/octet-stream'')])"
proof -
  have "('''', ''application/octet-stream'') \<in> set extensions_map"
    by (simp add: extensions_map_def)
  then have "snd (splitext p) = '''' \<Longrightarrow> guess_type E p = ''application/octet-stream''"
    by (rule guess_type_in_table)
  then show ?thesis
    using handle_200_file[OF assms] guess_type_not_in_table[of p E] by auto
qed

theorem content_type_of_other_extension_witness:
  "r_version (req ''GET'' ''/web/data.bin'' ''HTTP/1.1'') \<noteq> ''HTTP/0.9''
   \<and> hd (respond example_env ''/srv/app'' (req ''GET'' ''/web/data.bin'' ''HTTP/1.1''))
       = status_line 200 ''OK''
   \<and> Open ''/srv/app/web/data.bin''
       \<in> set (fs_log (handle example_env ''/srv/app'' (req ''GET'' ''/web/data.bin'' ''HTTP/1.1'')))
   \<and> lower (snd (splitext ''/srv/app/web/data.bin'')) \<notin> fst ` set extensions_map
   \<and> mimetypes_guess_type example_env ''/srv/app/web/data.bin'' = None
   \<and> filter (header_named ''Content-Type'')
        (response_headers (respond example_env ''/srv/app'' (req ''GET'' ''/web/data.bin'' ''HTTP/1.1'')))
       = [header_line ''Content-type'' ''application/octet-stream'']"
proof -
  let ?r = "req ''GET'' ''/web/data.bin'' ''HTTP/1.1''"
  note ev = handle_GET_plain_file[where p = "''/srv/app/web/data.bin''" and E = example_env
      and dir = "''/srv/app''" and r = ?r, unfolded req_fields example_paths,
      OF refl example_translate_path(6) example_os_isdir(6) example_no_slash(6) example_os_open(6) refl]
  have v: "r_version ?r \<noteq> ''HTTP/0.9''"
    by (simp add: req_fields)
  have s: "hd (respond example_env ''/srv/app'' ?r) = status_line 200 ''OK''"
    by (simp add: ev(1))
  have l: "Open ''/srv/app/web/data.bin'' \<in> set (fs_log (handle example_env ''/srv/app'' ?r))"
    by (simp add: ev(2))
  have x: "lower (snd (splitext ''/srv/app/web/data.bin'')) \<notin> fst ` set extensions_map"
    by (simp add: example_splitext extensions_map_def lower_def lower_char_def)
  have g: "mimetypes_guess_type example_env ''/srv/app/web/data.bin'' = None"
    by (simp add: example_env_def endswith_def)
  from content_type_of_other_extension[OF v s l] v s l x g
  show ?thesis by simp
qed

text \<open>
  The claim as stated fails for an extension that the \<^verbatim>\<open>mimetypes\<close> database knows:
  \<^verbatim>\<open>/web/notes.txt\<close> is served as \<^verbatim>\<open>text/plain\<close>. It fails for an extension that is in
  the table only in lower case: \<^verbatim>\<open>/web/LOGO.PNG\<close> is served as \<^verbatim>\<open>image/png\<close>. And it
  fails for the request line \<^verbatim>\<open>GET /web/data.bin\<close>, whose version is \<^verbatim>\<open>HTTP/0.9\<close>: the
  answer has no \<^verbatim>\<open>Content-Type\<close> header.
\<close>

theorem other_extension_counterexample:
  "filter (header_named ''Content-Type'')
     (response_headers (respond example_env ''/srv/app'' (req ''GET'' ''/web/notes.txt'' ''HTTP/1.1'')))
     = [header_line ''Content-type'' ''text/plain'']
   \<and> filter (header_named ''Content-Type'')
     (response_headers (respond example_env ''/srv/app'' (req ''GET'' ''/web/LOGO.PNG'' ''HTTP/1.1'')))
     = [header_line ''Content-type'' ''image/png'']
   \<and> ''.txt'' \<notin> fst ` set extensions_map \<and> ''.PNG'' \<notin> fst ` set extensions_map
   \<and> respond example_env ''/srv/app'' (req ''GET'' ''/web/data.bin'' ''HTTP/0.9'') = [''0'']"
proof -
  note ev1 = handle_GET_plain_file(1)[where p = "''/srv/app/web/notes.txt''" and E = example_env
      and dir = "''/srv/app''" and r = "req ''GET'' ''/web/notes.txt'' ''HTTP/1.1''",
      unfolded req_fields example_paths,
      OF refl example_translate_path(4) example_os_isdir(4) example_no_slash(4) example_os_open(4) refl]
  note ev2 = handle_GET_plain_file(1)[where p = "''/srv/app/web/LOGO.PNG''" and E = example_env
      and dir = "''/srv/app''" and r = "req ''GET'' ''/web/LOGO.PNG'' ''HTTP/1.1''",
      unfolded req_fields example_paths,
      OF refl example_translate_path(5) example_os_isdir(5) example_no_slash(5) example_os_open(5) refl]
  have a: "filter (header_named ''Content-Type'')
     (response_headers (respond example_env ''/srv/app'' (req ''GET'' ''/web/notes.txt'' ''HTTP/1.1'')))
     = [header_line ''Content-type'' ''text/plain'']"
    by (simp add: ev1 example_guess_type response_headers_def response_head_def
          CRLF_not_header_line CRLF_not_status_line takeWhile_cors_headers header_named_values
          filter_content_type_cors)
  have b: "filter (header_named ''Content-Type'')
     (response_headers (respond example_env ''/srv/app'' (req ''GET'' ''/web/LOGO.PNG'' ''HTTP/1.1'')))
     = [header_line ''Content-type'' ''image/png'']"
    by (simp add: ev2 example_guess_type response_headers_def response_head_def
          CRLF_not_header_line CRLF_not_status_line takeWhile_cors_headers header_named_values
          filter_content_type_cors)
  have c: "''.txt'' \<notin> fst ` set extensions_map" "''.PNG'' \<notin> fst ` set extensions_map"
    by (simp_all add: extensions_map_def)
  have d: "respond example_env ''/srv/app'' (req ''GET'' ''/web/data.bin'' ''HTTP/0.9'') = [''0'']"
    by (simp add: handle_GET_plain_file(1)[where p = "''/srv/app/web/data.bin''"] req_fields
          example_paths example_translate_path example_os_isdir example_os_open example_no_slash)
  from a b c d show ?thesis by blast
qed

subsection \<open>C8: interrupt and bind failure\<close>



subsection \<open>C9: the browser\<close>



subsection \<open>C10: the working directory\<close>

text \<open>
  C10. \<^verbatim>\<open>run_server\<close> first changes the working directory to the configured root
  directory: when that succeeds it is the first event of the run, and the socket is
  bound only after it. When it fails (the directory does not exist), \<^verbatim>\<open>run_server\<close>
  raises the error with nothing done: no socket is bound and no request, whatever its
  method, is answered; the process exits with status 1.
\<close>

theorem chdir_comes_first:
  "(os_chdir W (DIRECTORY W) \<longrightarrow>
      take 1 (fst (run_server W)) = [Chdir (DIRECTORY W)]
      \<and> (\<forall>a. Bind a \<in> set (fst (run_server W)) \<longrightarrow>
             take 2 (fst (run_server W)) = [Chdir (DIRECTORY W), Bind a]))
   \<and> (\<not> os_chdir W (DIRECTORY W) \<longrightarrow>
      run_server W = ([], Raised OSError) \<and> exit_status W = Some 1)"
proof (intro conjI impI allI)
  assume c: "os_chdir W (DIRECTORY W)"
  show "take 1 (fst (run_server W)) = [Chdir (DIRECTORY W)]"
  proof (cases "server_bind W ('''', PORT)")
    case True
    with c show ?thesis by (rule run_server_events) simp
  next
    case False
    with c show ?thesis by (simp add: run_server_def)
  qed
  fix a
  assume m: "Bind a \<in> set (fst (run_server W))"
  show "take 2 (fst (run_server W)) = [Chdir (DIRECTORY W), Bind a]"
  proof (cases "server_bind W ('''', PORT)")
    case True
    with c obtain tail where
      run: "fst (run_server W) =
         [Chdir (DIRECTORY W), Bind ('''', 8090), Print (banner ''http://localhost:8090/web/''),
          WebbrowserOpen ''http://localhost:8090/web/'', ServeForever] @ tail"
      and t: "\<forall>ev\<in>set tail. (\<exists>w. ev = Response w) \<or> ev = Print farewell \<or> ev = ServerClose"
      by (rule run_server_events)
    from m run t have "a = ('''', 8090)" by auto
    with run show ?thesis by simp
  next
    case False
    with c have "fst (run_server W) = [Chdir (DIRECTORY W)]"
      by (simp add: run_server_def)
    with m show ?thesis by simp
  qed
next
  assume "\<not> os_chdir W (DIRECTORY W)"
  then show "run_server W = ([], Raised OSError)" "exit_status W = Some 1"
    by (simp_all add: run_server_def exit_status_def)
qed

theorem chdir_comes_first_witness:
  "take 2 (fst (run_server (example_world True True [Raise KeyboardInterrupt])))
     = [Chdir ''/srv/app'', Bind ('''', 8090)]
   \<and> run_server (example_world False True
        [Connection (req ''OPTIONS'' ''/anything'' ''HTTP/1.1''), Raise KeyboardInterrupt])
     = ([], Raised OSError)"
proof -
  let ?W = "example_world True True [Raise KeyboardInterrupt]"
  let ?V = "example_world False True
        [Connection (req ''OPTIONS'' ''/anything'' ''HTTP/1.1''), Raise KeyboardInterrupt]"
  have c: "os_chdir ?W (DIRECTORY ?W)" and b: "server_bind ?W ('''', PORT)"
    and n: "\<not> os_chdir ?V (DIRECTORY ?V)"
    by (simp_all add: example_world_def)
  have "Bind ('''', 8090) \<in> set (fst (run_server ?W))"
    using c b by (simp add: run_server_started split_beta example_world_def)
  with chdir_comes_first[of ?W] chdir_comes_first[of ?V] c n
  show ?thesis by (simp add: example_DIRECTORY)
qed

end
